theory Spec2Isabelle
  imports Main "HOL-Library.Word"
begin

section \<open>The Astarte API client (\<open>src/astarte-client/client.ts\<close>)\<close>

subsection \<open>JavaScript strings\<close>

text \<open>
  A JavaScript string is a sequence of UTF-16 code units. Program literals are written
  \<open>js ''...''\<close>; they are ASCII in this source.
\<close>

type_synonym jsstring = "16 word list"

definition js :: "string \<Rightarrow> jsstring" where
  "js s = map (\<lambda>c. of_nat (of_char c)) s"

text \<open>
  The values a promise of the client rejects with: \<open>new Error(msg)\<close> thrown by the
  client itself, the \<open>URIError\<close> of \<open>encodeURIComponent\<close>, the \<open>TypeError\<close> of a
  property read on \<open>undefined\<close> or of the call of a missing method, and a reason that comes from outside (a failed HTTP
  call of axios, the payload of a channel's error reply), which the client never
  inspects.
\<close>

datatype jserror = Error jsstring | URIError | TypeError | Remote nat

text \<open>
  Surrogates, the conversion of a string to scalar values (an unpaired surrogate becomes
  \<open>U+FFFD\<close>), the UTF-8 octets of a code point, and the escape \<open>%XX\<close> of an octet,
  with upper-case digits.
\<close>

definition isLeadingSurrogate :: "16 word \<Rightarrow> bool" where
  "isLeadingSurrogate c \<longleftrightarrow> 0xD800 \<le> unat c \<and> unat c \<le> 0xDBFF"

definition isTrailingSurrogate :: "16 word \<Rightarrow> bool" where
  "isTrailingSurrogate c \<longleftrightarrow> 0xDC00 \<le> unat c \<and> unat c \<le> 0xDFFF"

definition UTF16SurrogatePairToCodePoint :: "16 word \<Rightarrow> 16 word \<Rightarrow> nat" where
  "UTF16SurrogatePairToCodePoint lead trail =
     (unat lead - 0xD800) * 0x400 + (unat trail - 0xDC00) + 0x10000"

definition utf8Encode :: "nat \<Rightarrow> nat list" where
  "utf8Encode cp =
     (if cp < 0x80 then [cp]
      else if cp < 0x800 then [0xC0 + cp div 0x40, 0x80 + cp mod 0x40]
      else if cp < 0x10000 then
        [0xE0 + cp div 0x1000, 0x80 + cp div 0x40 mod 0x40, 0x80 + cp mod 0x40]
      else
        [0xF0 + cp div 0x40000, 0x80 + cp div 0x1000 mod 0x40,
         0x80 + cp div 0x40 mod 0x40, 0x80 + cp mod 0x40])"

definition hexDigit :: "nat \<Rightarrow> 16 word" where
  "hexDigit n = of_nat (if n < 10 then 0x30 + n else 0x37 + n)"

definition escapeOctet :: "nat \<Rightarrow> jsstring" where
  "escapeOctet b = [0x25, hexDigit (b div 16), hexDigit (b mod 16)]"

definition escapeOctets :: "nat list \<Rightarrow> jsstring" where
  "escapeOctets bs = concat (map escapeOctet bs)"

fun toScalarValues :: "jsstring \<Rightarrow> nat list" where
  "toScalarValues [] = []"
| "toScalarValues [c] =
     (if isLeadingSurrogate c \<or> isTrailingSurrogate c then [0xFFFD] else [unat c])"
| "toScalarValues (c # d # cs) =
     (if isLeadingSurrogate c then
        (if isTrailingSurrogate d
         then UTF16SurrogatePairToCodePoint c d # toScalarValues cs
         else 0xFFFD # toScalarValues (d # cs))
      else if isTrailingSurrogate c then 0xFFFD # toScalarValues (d # cs)
      else unat c # toScalarValues (d # cs))"

subsection \<open>Relative URLs\<close>

text \<open>
  \<open>new URL(input, base)\<close> is the URL parser of the URL standard. The base URLs of the
  client are the \<open>http\<close> or \<open>https\<close> addresses of the four APIs; the parser's reading of
  the base itself (scheme, host, port, path) is not modelled, and a resolved URL is
  written relative to it: the path is the base's path without its last \<open>n\<close> segments
  (as far as it has them) followed by new segments, or a path from the root; the query
  is the base's, none, one read from the input, or the serialisation of the entries a
  method has put into \<open>search\<close>.
\<close>

datatype pathref = BasePath nat "jsstring list" | RootPath "jsstring list"

datatype queryref =
    BaseQuery | NoQuery | Query jsstring | SearchParams "(jsstring \<times> jsstring) list"

text \<open>
  An input with a scheme of its own, or that starts with two slashes, is read in the
  scheme and authority states of the parser, which are not modelled: it is kept as it
  is (\<open>PlatformURL input base search\<close>). No endpoint of this client is such an input,
  since every one starts with the literal \<open>v1/\<close> or \<open>health\<close>.
\<close>

datatype url =
    URL jsstring pathref queryref "jsstring option"
  | PlatformURL jsstring jsstring "(jsstring \<times> jsstring) list option"

text \<open>The percent-encode sets of the standard, on code points.\<close>

definition inC0ControlSet :: "nat \<Rightarrow> bool" where
  "inC0ControlSet cp \<longleftrightarrow> cp \<le> 0x1F \<or> 0x7E < cp"

definition inFragmentSet :: "nat \<Rightarrow> bool" where
  "inFragmentSet cp \<longleftrightarrow> inC0ControlSet cp \<or> cp \<in> set [0x20, 0x22, 0x3C, 0x3E, 0x60]"

definition inQuerySet :: "nat \<Rightarrow> bool" where
  "inQuerySet cp \<longleftrightarrow> inC0ControlSet cp \<or> cp \<in> set [0x20, 0x22, 0x23, 0x3C, 0x3E]"

definition inSpecialQuerySet :: "nat \<Rightarrow> bool" where
  "inSpecialQuerySet cp \<longleftrightarrow> inQuerySet cp \<or> cp = 0x27"

definition inPathSet :: "nat \<Rightarrow> bool" where
  "inPathSet cp \<longleftrightarrow> inQuerySet cp \<or> cp \<in> set [0x3F, 0x5E, 0x60, 0x7B, 0x7D]"

definition percentEncodeWith :: "(nat \<Rightarrow> bool) \<Rightarrow> nat \<Rightarrow> jsstring" where
  "percentEncodeWith inSet cp = (if inSet cp then escapeOctets (utf8Encode cp) else [of_nat cp])"

definition isSingleDotSegment :: "jsstring \<Rightarrow> bool" where
  "isSingleDotSegment buffer \<longleftrightarrow> buffer \<in> set [js ''.'', js ''%2e'', js ''%2E'']"

definition isDoubleDotSegment :: "jsstring \<Rightarrow> bool" where
  "isDoubleDotSegment buffer \<longleftrightarrow>
     buffer \<in> set [js ''..'', js ''.%2e'', js ''.%2E'', js ''%2e.'', js ''%2E.'',
                   js ''%2e%2e'', js ''%2e%2E'', js ''%2E%2e'', js ''%2E%2E'']"

text \<open>Shortening a path removes its last segment, if it has one.\<close>

fun shorten :: "pathref \<Rightarrow> pathref" where
  "shorten (BasePath n []) = BasePath (Suc n) []"
| "shorten (BasePath n segments) = BasePath n (butlast segments)"
| "shorten (RootPath segments) = RootPath (butlast segments)"

fun appendSegment :: "pathref \<Rightarrow> jsstring \<Rightarrow> pathref" where
  "appendSegment (BasePath n segments) s = BasePath n (segments @ [s])"
| "appendSegment (RootPath segments) s = RootPath (segments @ [s])"

text \<open>
  The end of a segment in the path state: \<open>slash\<close> tells whether a slash ended it. A
  double-dot segment shortens the path, a single-dot segment is dropped, and both leave
  an empty last segment when nothing follows.
\<close>

definition endSegment :: "pathref \<Rightarrow> jsstring \<Rightarrow> bool \<Rightarrow> pathref" where
  "endSegment path buffer slash =
     (if isDoubleDotSegment buffer then
        (if slash then shorten path else appendSegment (shorten path) [])
      else if isSingleDotSegment buffer then
        (if slash then path else appendSegment path [])
      else appendSegment path buffer)"

definition fragmentState :: "nat list \<Rightarrow> jsstring" where
  "fragmentState input = concat (map (percentEncodeWith inFragmentSet) input)"

definition queryState :: "nat list \<Rightarrow> jsstring \<times> jsstring option" where
  "queryState input =
     (concat (map (percentEncodeWith inSpecialQuerySet) (takeWhile (\<lambda>c. c \<noteq> 0x23) input)),
      if 0x23 \<in> set input
      then Some (fragmentState (tl (dropWhile (\<lambda>c. c \<noteq> 0x23) input)))
      else None)"

text \<open>The path state, for a base with a special scheme: a backslash ends a segment as
  a slash does.\<close>

fun pathState ::
  "pathref \<Rightarrow> jsstring \<Rightarrow> nat list \<Rightarrow> pathref \<times> queryref \<times> jsstring option" where
  "pathState path buffer [] = (endSegment path buffer False, NoQuery, None)"
| "pathState path buffer (c # cs) =
     (if c = 0x2F \<or> c = 0x5C then pathState (endSegment path buffer True) [] cs
      else if c = 0x3F then
        (endSegment path buffer False, Query (fst (queryState cs)), snd (queryState cs))
      else if c = 0x23 then (endSegment path buffer False, NoQuery, Some (fragmentState cs))
      else pathState path (buffer @ percentEncodeWith inPathSet c) cs)"

text \<open>
  Before parsing, leading and trailing C0 controls and spaces are removed from the
  input, and every tab and newline.
\<close>

definition trimInput :: "nat list \<Rightarrow> nat list" where
  "trimInput input =
     filter (\<lambda>c. c \<noteq> 0x09 \<and> c \<noteq> 0x0A \<and> c \<noteq> 0x0D)
       (dropWhile (\<lambda>c. c \<le> 0x20) (rev (dropWhile (\<lambda>c. c \<le> 0x20) (rev input))))"

definition isASCIIAlpha :: "nat \<Rightarrow> bool" where
  "isASCIIAlpha c \<longleftrightarrow> (0x41 \<le> c \<and> c \<le> 0x5A) \<or> (0x61 \<le> c \<and> c \<le> 0x7A)"

definition isSchemeChar :: "nat \<Rightarrow> bool" where
  "isSchemeChar c \<longleftrightarrow>
     isASCIIAlpha c \<or> (0x30 \<le> c \<and> c \<le> 0x39) \<or> c = 0x2B \<or> c = 0x2D \<or> c = 0x2E"

text \<open>The scheme start and scheme states find a scheme when letters, digits, \<open>+\<close>,
  \<open>-\<close> and \<open>.\<close> after a first letter are followed by a colon.\<close>

definition startsWithScheme :: "nat list \<Rightarrow> bool" where
  "startsWithScheme input =
     (case input of
        [] \<Rightarrow> False
      | c # cs \<Rightarrow>
          isASCIIAlpha c \<and>
          (case dropWhile isSchemeChar cs of [] \<Rightarrow> False | d # ds \<Rightarrow> d = 0x3A))"

text \<open>
  The relative state and the relative slash state: an empty input is the base without
  its fragment; a first slash starts a path from the root; \<open>?\<close> and \<open>#\<close> keep the base's
  path; anything else replaces the last segment of the base's path.
\<close>

definition relativeURL :: "jsstring \<Rightarrow> jsstring \<Rightarrow> url" where
  "relativeURL base input =
     (let cps = trimInput (toScalarValues input) in
      if startsWithScheme cps then PlatformURL input base None
      else
        case cps of
          [] \<Rightarrow> URL base (BasePath 0 []) BaseQuery None
        | c # cs \<Rightarrow>
            if c = 0x2F \<or> c = 0x5C then
              (case cs of
                 [] \<Rightarrow> (case pathState (RootPath []) [] cs of (p, q, f) \<Rightarrow> URL base p q f)
               | d # ds \<Rightarrow>
                   if d = 0x2F \<or> d = 0x5C then PlatformURL input base None
                   else (case pathState (RootPath []) [] cs of (p, q, f) \<Rightarrow> URL base p q f))
            else if c = 0x3F then
              URL base (BasePath 0 []) (Query (fst (queryState cs))) (snd (queryState cs))
            else if c = 0x23 then URL base (BasePath 0 []) BaseQuery (Some (fragmentState cs))
            else (case pathState (BasePath 1 []) [] cps of (p, q, f) \<Rightarrow> URL base p q f))"

text \<open>\<open>url.search = new URLSearchParams(entries).toString()\<close>.\<close>

fun setSearch :: "url \<Rightarrow> (jsstring \<times> jsstring) list \<Rightarrow> url" where
  "setSearch (URL base path query fragment) entries = URL base path (SearchParams entries) fragment"
| "setSearch (PlatformURL input base search) entries = PlatformURL input base (Some entries)"

text \<open>
  A path segment that the parser leaves as it is: printable ASCII without the
  characters that end a segment or are percent-encoded in a path, and not a dot
  segment.
\<close>

definition pathChar :: "16 word \<Rightarrow> bool" where
  "pathChar c \<longleftrightarrow>
     0x21 \<le> unat c \<and> unat c \<le> 0x7E \<and>
     unat c \<notin> set [0x22, 0x23, 0x2F, 0x3C, 0x3E, 0x3F, 0x5C, 0x5E, 0x60, 0x7B, 0x7D]"

definition plainSegment :: "jsstring \<Rightarrow> bool" where
  "plainSegment s \<longleftrightarrow>
     list_all pathChar s \<and> \<not> isSingleDotSegment s \<and> \<not> isDoubleDotSegment s"

subsection \<open>Endpoint URL builder\<close>

text \<open>\<open>Array.prototype.join('')\<close> prints \<open>undefined\<close> as the empty string.\<close>

fun joinValue :: "jsstring option \<Rightarrow> jsstring" where
  "joinValue None = []"
| "joinValue (Some v) = v"

text \<open>\<open>_.flatten(_.zip(strings, values)).join('')\<close>; \<open>_.zip\<close> pads the shorter array
  with \<open>undefined\<close>.\<close>

fun zipJoin :: "jsstring list \<Rightarrow> jsstring option list \<Rightarrow> jsstring" where
  "zipJoin [] [] = []"
| "zipJoin (s # ss) [] = s @ zipJoin ss []"
| "zipJoin [] (v # vs) = joinValue v @ zipJoin [] vs"
| "zipJoin (s # ss) (v # vs) = s @ joinValue v @ zipJoin ss vs"

text \<open>
  The tagged template \<open>astarteAPIurl\<close>: \<open>strings\<close> are the literal parts (the first one
  precedes the base URL), \<open>keys\<close> the parameter names, \<open>params\<close> the record the
  returned closure is called with.
\<close>

definition astarteAPIurl ::
  "jsstring list \<Rightarrow> jsstring \<Rightarrow> string list \<Rightarrow> (string \<rightharpoonup> jsstring) \<Rightarrow> url" where
  "astarteAPIurl strings baseUrl keys params =
     (let values = map params keys;
          endpointUrl = zipJoin (tl strings) values
      in relativeURL baseUrl endpointUrl)"

subsection \<open>The client instance\<close>

text \<open>
  The fields of \<open>AstarteClient\<close>. The four base URLs are the ones the constructor
  captures in \<open>apiConfig\<close>. Sockets, channels and listener callbacks are objects of the
  phoenix library and of the caller: they are named by natural numbers.
\<close>

datatype clientEvent = SocketError | SocketClose

record client =
  realm :: jsstring
  token :: jsstring
  appEngineApiUrl :: jsstring
  flowApiUrl :: jsstring
  pairingApiUrl :: jsstring
  realmManagementApiUrl :: jsstring
  phoenixSocket :: "nat option"
  joinedChannels :: "jsstring \<rightharpoonup> nat"
  listeners :: "clientEvent \<Rightarrow> nat list"

text \<open>
  \<open>joinedChannels\<close> is a plain object, made by \<open>{}\<close>: the field holds its own
  properties, and a read \<open>this.joinedChannels[roomName]\<close> that finds no own property
  goes on to \<open>Object.prototype\<close>, whose members (functions, and for \<open>__proto__\<close> the
  prototype itself) are all truthy and none of them a channel.
\<close>

definition objectPrototypeNames :: "jsstring list" where
  "objectPrototypeNames =
     [js ''constructor'', js ''hasOwnProperty'', js ''isPrototypeOf'',
      js ''propertyIsEnumerable'', js ''toLocaleString'', js ''toString'', js ''valueOf'',
      js ''__proto__'', js ''__defineGetter__'', js ''__defineSetter__'',
      js ''__lookupGetter__'', js ''__lookupSetter__'']"

datatype jsvalue = Channel nat | Inherited jsstring

definition getProperty :: "(jsstring \<rightharpoonup> nat) \<Rightarrow> jsstring \<Rightarrow> jsvalue option" where
  "getProperty object key =
     (case object key of
        Some channel \<Rightarrow> Some (Channel channel)
      | None \<Rightarrow> if key \<in> set objectPrototypeNames then Some (Inherited key) else None)"

text \<open>\<open>this.config\<close>, the record \<open>{ realm }\<close> spread into every parameter record.\<close>

definition this_config :: "client \<Rightarrow> (string \<rightharpoonup> jsstring)" where
  "this_config c = [''realm'' \<mapsto> realm c]"

definition apiConfig_groupDevices :: "client \<Rightarrow> (string \<rightharpoonup> jsstring) \<Rightarrow> url" where
  "apiConfig_groupDevices c =
     astarteAPIurl [[], js ''v1/'', js ''/groups/'', js ''/devices''] (appEngineApiUrl c)
       [''realm'', ''groupName'']"

definition apiConfig_deviceInGroup :: "client \<Rightarrow> (string \<rightharpoonup> jsstring) \<Rightarrow> url" where
  "apiConfig_deviceInGroup c =
     astarteAPIurl [[], js ''v1/'', js ''/groups/'', js ''/devices/'', []] (appEngineApiUrl c)
       [''realm'', ''groupName'', ''deviceId'']"

definition apiConfig_devices :: "client \<Rightarrow> (string \<rightharpoonup> jsstring) \<Rightarrow> url" where
  "apiConfig_devices c =
     astarteAPIurl [[], js ''v1/'', js ''/devices''] (appEngineApiUrl c) [''realm'']"

definition apiConfig_phoenixSocket :: "client \<Rightarrow> (string \<rightharpoonup> jsstring) \<Rightarrow> url" where
  "apiConfig_phoenixSocket c =
     astarteAPIurl [[], js ''v1/socket''] (appEngineApiUrl c) []"

definition apiConfig_blocks :: "client \<Rightarrow> (string \<rightharpoonup> jsstring) \<Rightarrow> url" where
  "apiConfig_blocks c =
     astarteAPIurl [[], js ''v1/'', js ''/blocks''] (flowApiUrl c) [''realm'']"

definition apiConfig_blockSource :: "client \<Rightarrow> (string \<rightharpoonup> jsstring) \<Rightarrow> url" where
  "apiConfig_blockSource c =
     astarteAPIurl [[], js ''v1/'', js ''/blocks/'', []] (flowApiUrl c) [''realm'', ''blockId'']"

subsection \<open>Authenticated request methods\<close>

text \<open>
  A call of axios is a request record; \<open>body\<close> is the payload the method wraps as
  \<open>{ data }\<close>. The server is a function from the request to the JSON body of the
  response or to the reason the call fails with. Every method returns the requests it
  issued, in order, and what its promise settles with.
\<close>

datatype httpMethod = GET | POST | PUT | PATCH | DELETE

record 'p request =
  req_method :: httpMethod
  req_url :: url
  req_authorization :: jsstring
  req_contentType :: jsstring
  req_body :: "'p option"

text \<open>
  The JSON body of a response: its \<open>data\<close> field and its \<open>links\<close> object, if it has
  one, with the \<open>next\<close> link, if there is one.
\<close>

record links =
  links_next :: "jsstring option"

record 'd response =
  resp_data :: 'd
  resp_links :: "links option"

definition bearer :: "client \<Rightarrow> jsstring" where
  "bearer c = js ''Bearer '' @ token c"

definition get_request :: "client \<Rightarrow> url \<Rightarrow> 'p request" where
  "get_request c u =
     \<lparr>req_method = GET, req_url = u, req_authorization = bearer c,
      req_contentType = js ''application/json;charset=UTF-8'', req_body = None\<rparr>"

definition post_request :: "client \<Rightarrow> url \<Rightarrow> 'p \<Rightarrow> 'p request" where
  "post_request c u d =
     \<lparr>req_method = POST, req_url = u, req_authorization = bearer c,
      req_contentType = js ''application/json;charset=UTF-8'', req_body = Some d\<rparr>"

definition delete_request :: "client \<Rightarrow> url \<Rightarrow> 'p request" where
  "delete_request c u =
     \<lparr>req_method = DELETE, req_url = u, req_authorization = bearer c,
      req_contentType = js ''application/json;charset=UTF-8'', req_body = None\<rparr>"

type_synonym ('p, 'd) server = "'p request \<Rightarrow> jserror + 'd response"

text \<open>One awaited call: the request is issued, and the continuation runs on a response.\<close>

definition await_request ::
  "('p, 'd) server \<Rightarrow> 'p request \<Rightarrow> ('d response \<Rightarrow> jserror + 'a) \<Rightarrow>
   'p request list \<times> (jserror + 'a)" where
  "await_request server r k =
     ([r], case server r of Inl e \<Rightarrow> Inl e | Inr resp \<Rightarrow> k resp)"

subsection \<open>Blocks\<close>

text \<open>
  A block DTO is any record with a \<open>name\<close> field. The list \<open>definitions.blocks\<close> of
  built-in blocks and the transform \<open>toAstarteBlock\<close> live in modules outside this
  file: they are parameters (\<open>staticBlocks\<close>, \<open>toAstarteBlock\<close>). In \<open>getBlock\<close> the
  \<open>find\<close> runs only when the name is in the list, so it always finds a block.
\<close>

record blockDTO =
  name :: jsstring

text \<open>\<open>_.uniqBy(array, iteratee)\<close>: the first element of every key is kept, in order.\<close>

fun baseUniq :: "('a \<Rightarrow> 'k) \<Rightarrow> 'k list \<Rightarrow> 'a list \<Rightarrow> 'a list" where
  "baseUniq f seen [] = []"
| "baseUniq f seen (x # xs) =
     (if f x \<in> set seen then baseUniq f seen xs else x # baseUniq f (seen @ [f x]) xs)"

definition uniqBy :: "'a list \<Rightarrow> ('a \<Rightarrow> 'k) \<Rightarrow> 'a list" where
  "uniqBy array iteratee = baseUniq iteratee [] array"

definition getBlocks ::
  "'m blockDTO_scheme list \<Rightarrow> ('m blockDTO_scheme \<Rightarrow> 'b) \<Rightarrow>
   ('p, 'm blockDTO_scheme list) server \<Rightarrow> client \<Rightarrow> 'p request list \<times> (jserror + 'b list)" where
  "getBlocks staticBlocks toAstarteBlock server c =
     await_request server (get_request c (apiConfig_blocks c (this_config c)))
       (\<lambda>response.
          let fetchedBlocks = resp_data response;
              allBlocks = uniqBy (fetchedBlocks @ staticBlocks) name
          in Inr (map toAstarteBlock allBlocks))"

definition registerBlock ::
  "'m blockDTO_scheme list \<Rightarrow> ('n blockDTO_scheme, 'd) server \<Rightarrow> client \<Rightarrow>
   'n blockDTO_scheme \<Rightarrow> 'n blockDTO_scheme request list \<times> (jserror + unit)" where
  "registerBlock staticBlocks server c block =
     (let staticBlocksName = map name staticBlocks in
      if name block \<in> set staticBlocksName
      then ([], Inl (Error (js ''The block's name already exists'')))
      else await_request server (post_request c (apiConfig_blocks c (this_config c)) block)
             (\<lambda>response. Inr ()))"

definition getBlock ::
  "'m blockDTO_scheme list \<Rightarrow> ('m blockDTO_scheme \<Rightarrow> 'b) \<Rightarrow>
   ('p, 'm blockDTO_scheme) server \<Rightarrow> client \<Rightarrow> jsstring \<Rightarrow>
   'p request list \<times> (jserror + 'b)" where
  "getBlock staticBlocks toAstarteBlock server c blockId =
     (let staticBlocksName = map name staticBlocks in
      if blockId \<in> set staticBlocksName
      then (case find (\<lambda>block. name block = blockId) staticBlocks of
              Some blockDTO \<Rightarrow> ([], Inr (toAstarteBlock blockDTO))
            | None \<Rightarrow> ([], Inl TypeError))
      else await_request server
             (get_request c (apiConfig_blockSource c ((this_config c)(''blockId'' \<mapsto> blockId))))
             (\<lambda>response. Inr (toAstarteBlock (resp_data response))))"

definition deleteBlock ::
  "'m blockDTO_scheme list \<Rightarrow> ('p, 'd) server \<Rightarrow> client \<Rightarrow> jsstring \<Rightarrow>
   'p request list \<times> (jserror + unit)" where
  "deleteBlock staticBlocks server c blockId =
     (let staticBlocksName = map name staticBlocks in
      if blockId \<in> set staticBlocksName
      then ([], Inl (Error (js ''Cannot delete a native block'')))
      else await_request server
             (delete_request c (apiConfig_blockSource c ((this_config c)(''blockId'' \<mapsto> blockId))))
             (\<lambda>response. Inr ()))"

subsection \<open>\<open>encodeURIComponent\<close> and \<open>decodeURIComponent\<close>\<close>

text \<open>
  The built-in \<open>encodeURIComponent\<close> is the abstract operation \<open>Encode\<close> of ECMAScript
  with the unreserved set \<open>uriAlpha\<close>, \<open>DecimalDigit\<close>, \<open>uriMark\<close>: a code unit of
  the set is copied, any other code point is replaced by the escapes \<open>%XX\<close> of its
  UTF-8 octets, and an unpaired surrogate throws \<open>URIError\<close>.
\<close>

definition uriUnescaped :: "16 word \<Rightarrow> bool" where
  "uriUnescaped c \<longleftrightarrow>
     c \<in> set (js ''ABCDEFGHIJKLMNOPQRSTUVWXYZabcdefghijklmnopqrstuvwxyz0123456789-_.!~*'()'')"

fun encodeURIComponent :: "jsstring \<Rightarrow> jserror + jsstring" where
  "encodeURIComponent [] = Inr []"
| "encodeURIComponent (c # cs) =
     (if uriUnescaped c then
        (case encodeURIComponent cs of Inl e \<Rightarrow> Inl e | Inr r \<Rightarrow> Inr (c # r))
      else if isLeadingSurrogate c then
        (case cs of
           [] \<Rightarrow> Inl URIError
         | d # ds \<Rightarrow>
             if isTrailingSurrogate d then
               (case encodeURIComponent ds of
                  Inl e \<Rightarrow> Inl e
                | Inr r \<Rightarrow>
                    Inr (escapeOctets (utf8Encode (UTF16SurrogatePairToCodePoint c d)) @ r))
             else Inl URIError)
      else if isTrailingSurrogate c then Inl URIError
      else
        (case encodeURIComponent cs of
           Inl e \<Rightarrow> Inl e
         | Inr r \<Rightarrow> Inr (escapeOctets (utf8Encode (unat c)) @ r)))"

text \<open>A string is well formed when it has no unpaired surrogate
  (\<open>String.prototype.isWellFormed\<close>).\<close>

fun isWellFormed :: "jsstring \<Rightarrow> bool" where
  "isWellFormed [] = True"
| "isWellFormed (c # cs) =
     (if isLeadingSurrogate c then
        (case cs of [] \<Rightarrow> False | d # ds \<Rightarrow> isTrailingSurrogate d \<and> isWellFormed ds)
      else \<not> isTrailingSurrogate c \<and> isWellFormed cs)"

text \<open>
  Percent-decoding is \<open>decodeURIComponent\<close>, the operation \<open>Decode\<close> of ECMAScript with
  an empty set of preserved escapes: an escape \<open>%XX\<close> below \<open>0x80\<close> is that
  character, an escape whose octet starts a UTF-8 sequence of \<open>n\<close> octets is read with
  the \<open>n - 1\<close> escapes after it and gives the code point they encode, and anything
  malformed throws \<open>URIError\<close>.
\<close>

definition hexValue :: "16 word \<Rightarrow> nat option" where
  "hexValue c =
     (let n = unat c in
      if 0x30 \<le> n \<and> n \<le> 0x39 then Some (n - 0x30)
      else if 0x41 \<le> n \<and> n \<le> 0x46 then Some (n - 0x37)
      else if 0x61 \<le> n \<and> n \<le> 0x66 then Some (n - 0x57)
      else None)"

definition parseHexOctet :: "16 word \<Rightarrow> 16 word \<Rightarrow> nat option" where
  "parseHexOctet h l =
     (case hexValue h of
        None \<Rightarrow> None
      | Some a \<Rightarrow> (case hexValue l of None \<Rightarrow> None | Some b \<Rightarrow> Some (16 * a + b)))"

text \<open>The number of leading 1 bits of an octet (5 stands for five or more).\<close>

definition leadingOnes :: "nat \<Rightarrow> nat" where
  "leadingOnes b =
     (if b < 0x80 then 0 else if b < 0xC0 then 1 else if b < 0xE0 then 2
      else if b < 0xF0 then 3 else if b < 0xF8 then 4 else 5)"

text \<open>The \<open>k\<close> escapes that continue a sequence, read from the front of the string.\<close>

fun continuationOctets :: "nat \<Rightarrow> jsstring \<Rightarrow> nat list option" where
  "continuationOctets 0 s = Some []"
| "continuationOctets (Suc k) (p # h # l # s) =
     (if p = 0x25 then
        (case parseHexOctet h l of
           None \<Rightarrow> None
         | Some b \<Rightarrow>
             (case continuationOctets k s of None \<Rightarrow> None | Some bs \<Rightarrow> Some (b # bs)))
      else None)"
| "continuationOctets (Suc k) s = None"

definition isContinuation :: "nat \<Rightarrow> bool" where
  "isContinuation b \<longleftrightarrow> 0x80 \<le> b \<and> b \<le> 0xBF"

text \<open>The code point of a well-formed UTF-8 sequence of two to four octets: no overlong
  form, no surrogate, nothing above \<open>0x10FFFF\<close>.\<close>

fun utf8Decode :: "nat list \<Rightarrow> nat option" where
  "utf8Decode [b0, b1] =
     (let cp = (b0 - 0xC0) * 0x40 + (b1 - 0x80) in
      if isContinuation b1 \<and> 0x80 \<le> cp then Some cp else None)"
| "utf8Decode [b0, b1, b2] =
     (let cp = (b0 - 0xE0) * 0x1000 + (b1 - 0x80) * 0x40 + (b2 - 0x80) in
      if isContinuation b1 \<and> isContinuation b2 \<and> 0x800 \<le> cp \<and> \<not> (0xD800 \<le> cp \<and> cp \<le> 0xDFFF)
      then Some cp else None)"
| "utf8Decode [b0, b1, b2, b3] =
     (let cp = (b0 - 0xF0) * 0x40000 + (b1 - 0x80) * 0x1000 + (b2 - 0x80) * 0x40 + (b3 - 0x80) in
      if isContinuation b1 \<and> isContinuation b2 \<and> isContinuation b3 \<and>
         0x10000 \<le> cp \<and> cp \<le> 0x10FFFF
      then Some cp else None)"
| "utf8Decode bs = None"

definition utf16Encode :: "nat \<Rightarrow> jsstring" where
  "utf16Encode cp =
     (if cp < 0x10000 then [of_nat cp]
      else [of_nat (0xD800 + (cp - 0x10000) div 0x400),
            of_nat (0xDC00 + (cp - 0x10000) mod 0x400)])"

fun decodeURIComponent :: "jsstring \<Rightarrow> jserror + jsstring" where
  "decodeURIComponent [] = Inr []"
| "decodeURIComponent (c # cs) =
     (if c \<noteq> 0x25 then
        (case decodeURIComponent cs of Inl e \<Rightarrow> Inl e | Inr r \<Rightarrow> Inr (c # r))
      else
        (case cs of
           h # l # rest \<Rightarrow>
             (case parseHexOctet h l of
                None \<Rightarrow> Inl URIError
              | Some b \<Rightarrow>
                  let n = leadingOnes b in
                  if n = 0 then
                    (case decodeURIComponent rest of
                       Inl e \<Rightarrow> Inl e
                     | Inr r \<Rightarrow> Inr (of_nat b # r))
                  else if n = 1 \<or> n > 4 then Inl URIError
                  else
                    (case continuationOctets (n - 1) rest of
                       None \<Rightarrow> Inl URIError
                     | Some bs \<Rightarrow>
                         (case utf8Decode (b # bs) of
                            None \<Rightarrow> Inl URIError
                          | Some cp \<Rightarrow>
                              (case decodeURIComponent (drop (3 * (n - 1)) rest) of
                                 Inl e \<Rightarrow> Inl e
                               | Inr r \<Rightarrow> Inr (utf16Encode cp @ r)))))
         | _ \<Rightarrow> Inl URIError))"

subsection \<open>Groups\<close>

text \<open>
  The device transform \<open>fromAstarteDeviceDTO\<close> lives outside this file: a parameter.
  The body of \<open>addDeviceToGroup\<close> is the record \<open>{ device_id }\<close>.
\<close>

record deviceIdBody =
  device_id :: jsstring

definition getDevicesInGroup ::
  "('p, 'dto list) server \<Rightarrow> ('dto \<Rightarrow> 'dev) \<Rightarrow> client \<Rightarrow> jsstring \<Rightarrow> bool \<Rightarrow>
   'p request list \<times> (jserror + 'dev list)" where
  "getDevicesInGroup server fromAstarteDeviceDTO c groupName details =
     (if groupName = [] then ([], Inl (Error (js ''Invalid group name'')))
      else
        case encodeURIComponent groupName of
          Inl e \<Rightarrow> ([], Inl e)
        | Inr once \<Rightarrow>
            (case encodeURIComponent once of
               Inl e \<Rightarrow> ([], Inl e)
             | Inr encodedGroupName \<Rightarrow>
                 let endpointUri =
                       apiConfig_groupDevices c
                         ((this_config c)(''groupName'' \<mapsto> encodedGroupName));
                     endpointUri =
                       (if details
                        then setSearch endpointUri [(js ''details'', js ''true'')]
                        else endpointUri)
                 in await_request server (get_request c endpointUri)
                      (\<lambda>response. Inr (map fromAstarteDeviceDTO (resp_data response)))))"

definition addDeviceToGroup ::
  "(deviceIdBody, 'd) server \<Rightarrow> client \<Rightarrow> jsstring \<Rightarrow> jsstring \<Rightarrow>
   deviceIdBody request list \<times> (jserror + unit)" where
  "addDeviceToGroup server c groupName deviceId =
     (if groupName = [] then ([], Inl (Error (js ''Invalid group name'')))
      else if deviceId = [] then ([], Inl (Error (js ''Invalid device ID'')))
      else
        case encodeURIComponent groupName of
          Inl e \<Rightarrow> ([], Inl e)
        | Inr once \<Rightarrow>
            (case encodeURIComponent once of
               Inl e \<Rightarrow> ([], Inl e)
             | Inr encodedGroupName \<Rightarrow>
                 await_request server
                   (post_request c
                      (apiConfig_groupDevices c
                         ((this_config c)(''groupName'' \<mapsto> encodedGroupName)))
                      \<lparr>device_id = deviceId\<rparr>)
                   (\<lambda>response. Inr ())))"

definition removeDeviceFromGroup ::
  "('p, 'd) server \<Rightarrow> client \<Rightarrow> jsstring \<Rightarrow> jsstring \<Rightarrow>
   'p request list \<times> (jserror + unit)" where
  "removeDeviceFromGroup server c groupName deviceId =
     (if groupName = [] then ([], Inl (Error (js ''Invalid group name'')))
      else if deviceId = [] then ([], Inl (Error (js ''Invalid device ID'')))
      else
        case encodeURIComponent groupName of
          Inl e \<Rightarrow> ([], Inl e)
        | Inr once \<Rightarrow>
            (case encodeURIComponent once of
               Inl e \<Rightarrow> ([], Inl e)
             | Inr encodedGroupName \<Rightarrow>
                 await_request server
                   (delete_request c
                      (apiConfig_deviceInGroup c
                         ((this_config c)(''groupName'' \<mapsto> encodedGroupName,
                            ''deviceId'' \<mapsto> deviceId))))
                   (\<lambda>response. Inr ())))"

subsection \<open>\<open>URLSearchParams\<close>\<close>

text \<open>
  \<open>new URLSearchParams(init)\<close> on a string is the \<open>application/x-www-form-urlencoded\<close>
  parser of the URL standard: the string is converted to scalar values and UTF-8
  encoded, one leading \<open>?\<close> is dropped, the octets are split at \<open>&\<close>, each non-empty
  piece at its first \<open>=\<close>, \<open>+\<close> becomes a space, and name and value are
  percent-decoded and UTF-8 decoded, malformed octets becoming \<open>U+FFFD\<close>. On
  \<open>undefined\<close> the list is empty.
\<close>

text \<open>Splitting a list at every occurrence of a separator.\<close>

fun splitOn :: "nat \<Rightarrow> nat list \<Rightarrow> nat list list" where
  "splitOn sep [] = [[]]"
| "splitOn sep (b # bs) =
     (if b = sep then [] # splitOn sep bs
      else (case splitOn sep bs of p # ps \<Rightarrow> (b # p) # ps | [] \<Rightarrow> [[b]]))"

definition isHexOctetDigit :: "nat \<Rightarrow> bool" where
  "isHexOctetDigit b \<longleftrightarrow>
     (0x30 \<le> b \<and> b \<le> 0x39) \<or> (0x41 \<le> b \<and> b \<le> 0x46) \<or> (0x61 \<le> b \<and> b \<le> 0x66)"

definition hexOctetValue :: "nat \<Rightarrow> nat" where
  "hexOctetValue b =
     (if b \<le> 0x39 then b - 0x30 else if b \<le> 0x46 then b - 0x37 else b - 0x57)"

text \<open>Percent-decoding of the URL standard: a \<open>%\<close> that two hexadecimal digits do not
  follow stays as it is.\<close>

fun percentDecode :: "nat list \<Rightarrow> nat list" where
  "percentDecode (p # h # l # bs) =
     (if p = 0x25 \<and> isHexOctetDigit h \<and> isHexOctetDigit l
      then (16 * hexOctetValue h + hexOctetValue l) # percentDecode bs
      else p # percentDecode (h # l # bs))"
| "percentDecode (p # bs) = p # percentDecode bs"
| "percentDecode [] = []"

text \<open>
  The UTF-8 decoder of the Encoding standard, with replacement of errors. The state is
  the code point read so far, the continuation octets seen and needed, and the bounds
  of the next octet; an octet out of bounds is an error and is read again in the
  initial state.
\<close>

fun utf8DecodeLossy :: "nat \<Rightarrow> nat \<Rightarrow> nat \<Rightarrow> nat \<Rightarrow> nat \<Rightarrow> nat list \<Rightarrow> nat list" where
  "utf8DecodeLossy cp seen needed lower upper [] = (if needed \<noteq> 0 then [0xFFFD] else [])"
| "utf8DecodeLossy cp seen needed lower upper (b # bs) =
     (if needed = 0 then
        (if b \<le> 0x7F then b # utf8DecodeLossy 0 0 0 0x80 0xBF bs
         else if 0xC2 \<le> b \<and> b \<le> 0xDF then utf8DecodeLossy (b - 0xC0) 0 1 0x80 0xBF bs
         else if 0xE0 \<le> b \<and> b \<le> 0xEF then
           utf8DecodeLossy (b - 0xE0) 0 2
             (if b = 0xE0 then 0xA0 else 0x80) (if b = 0xED then 0x9F else 0xBF) bs
         else if 0xF0 \<le> b \<and> b \<le> 0xF4 then
           utf8DecodeLossy (b - 0xF0) 0 3
             (if b = 0xF0 then 0x90 else 0x80) (if b = 0xF4 then 0x8F else 0xBF) bs
         else 0xFFFD # utf8DecodeLossy 0 0 0 0x80 0xBF bs)
      else if \<not> (lower \<le> b \<and> b \<le> upper) then
        0xFFFD # utf8DecodeLossy 0 0 0 0x80 0xBF (b # bs)
      else if Suc seen \<noteq> needed then
        utf8DecodeLossy (cp * 0x40 + (b - 0x80)) (Suc seen) needed 0x80 0xBF bs
      else (cp * 0x40 + (b - 0x80)) # utf8DecodeLossy 0 0 0 0x80 0xBF bs)"

definition utf8DecodeWithoutBOM :: "nat list \<Rightarrow> jsstring" where
  "utf8DecodeWithoutBOM bs = concat (map utf16Encode (utf8DecodeLossy 0 0 0 0x80 0xBF bs))"

definition plusToSpace :: "nat list \<Rightarrow> nat list" where
  "plusToSpace bs = map (\<lambda>b. if b = 0x2B then 0x20 else b) bs"

definition parseTuple :: "nat list \<Rightarrow> jsstring \<times> jsstring" where
  "parseTuple bytes =
     (let name = takeWhile (\<lambda>b. b \<noteq> 0x3D) bytes;
          val = (if 0x3D \<in> set bytes then tl (dropWhile (\<lambda>b. b \<noteq> 0x3D) bytes) else [])
      in (utf8DecodeWithoutBOM (percentDecode (plusToSpace name)),
          utf8DecodeWithoutBOM (percentDecode (plusToSpace val))))"

definition URLSearchParams :: "jsstring option \<Rightarrow> (jsstring \<times> jsstring) list" where
  "URLSearchParams init =
     (case init of
        None \<Rightarrow> []
      | Some s \<Rightarrow>
          let s = (case s of c # cs \<Rightarrow> if c = 0x3F then cs else s | [] \<Rightarrow> s);
              input = concat (map utf8Encode (toScalarValues s));
              sequences = splitOn 0x26 input
          in map parseTuple (filter (\<lambda>bytes. bytes \<noteq> []) sequences))"

text \<open>\<open>get(name)\<close>: the value of the first tuple of that name, or \<open>null\<close>.\<close>

definition searchParams_get :: "(jsstring \<times> jsstring) list \<Rightarrow> jsstring \<Rightarrow> jsstring option" where
  "searchParams_get list n = map_option snd (find (\<lambda>tuple. fst tuple = n) list)"

subsection \<open>Devices\<close>

text \<open>
  The number \<open>limit\<close> enters \<open>getDevices\<close> through its truthiness and through
  \<open>Number.prototype.toString\<close> only: a number is the pair of the two. Reading
  \<open>response.links.next\<close> on a response without a \<open>links\<close> object throws.
\<close>

record jsnumber =
  number_truthy :: bool
  number_toString :: jsstring

definition getDevices ::
  "('p, 'dto list) server \<Rightarrow> ('dto \<Rightarrow> 'dev) \<Rightarrow> client \<Rightarrow>
   bool \<Rightarrow> jsstring option \<Rightarrow> jsnumber option \<Rightarrow>
   'p request list \<times> (jserror + 'dev list \<times> jsstring option)" where
  "getDevices server fromAstarteDeviceDTO c details from limit =
     (let endpointUri = apiConfig_devices c (this_config c);
          query =
            (if details then [(js ''details'', js ''true'')] else []) @
            (case limit of
               None \<Rightarrow> []
             | Some n \<Rightarrow> if number_truthy n then [(js ''limit'', number_toString n)] else []) @
            (case from of
               None \<Rightarrow> []
             | Some t \<Rightarrow> if t \<noteq> [] then [(js ''from_token'', t)] else []);
          endpointUri = setSearch endpointUri query
      in await_request server (get_request c endpointUri)
           (\<lambda>response.
              let devices = map fromAstarteDeviceDTO (resp_data response) in
              case resp_links response of
                None \<Rightarrow> Inl TypeError
              | Some links \<Rightarrow>
                  let nextToken =
                        searchParams_get (URLSearchParams (links_next links)) (js ''from_token'')
                  in Inr (devices, nextToken)))"

subsection \<open>Realtime channels\<close>

text \<open>
  The client runs on an event loop: a method runs to its end, and what it awaits is
  continued later, when the socket reports that it is open or a channel push is
  replied to. A world is the client instance together with the phoenix objects made so
  far, the continuations waiting for an event, and what each promise handed to a caller
  has settled with (no entry: still pending). The operations on phoenix objects are
  logged in \<open>trace\<close>, in order. Phoenix and the server are the surroundings of the
  client: which events they send, and when, is not part of the model.
\<close>

datatype settlement = Resolved jsvalue | Resolved_void | Rejected jserror

text \<open>The socket address: the URL with its protocol replaced (\<open>wss:\<close> for \<open>https:\<close>,
  \<open>ws:\<close> otherwise).\<close>

datatype socketUrl = WebSocket url

datatype action =
    NewSocket nat socketUrl jsstring jsstring
  | Connect nat
  | NewChannel nat nat jsstring
  | Join nat nat
  | Leave nat nat
  | Push nat nat jsstring nat
  | On nat jsstring nat
  | Callback nat

text \<open>
  What the reply handlers of a push close over: the channel, the promise of the method
  and the room name (\<open>joinChannel\<close> in \<open>joinRoom\<close>, \<open>leaveChannel\<close> in \<open>leaveRoom\<close>,
  \<open>registerTrigger\<close>).
\<close>

datatype waiting =
    JoinPush nat nat jsstring
  | LeavePush nat nat jsstring
  | WatchPush nat nat

record world =
  this :: client
  sockets :: nat
  channels :: nat
  pushes :: nat
  promises :: nat
  connecting :: "nat \<rightharpoonup> nat \<times> jsstring"
  awaiting :: "nat \<rightharpoonup> waiting"
  settled :: "nat \<rightharpoonup> settlement"
  trace :: "action list"

definition settle :: "nat \<Rightarrow> settlement \<Rightarrow> world \<Rightarrow> world" where
  "settle p v w = w\<lparr>settled := (settled w)(p \<mapsto> v)\<rparr>"

definition perform :: "action list \<Rightarrow> world \<Rightarrow> world" where
  "perform acts w = w\<lparr>trace := trace w @ acts\<rparr>"

text \<open>A method called from outside returns a new promise.\<close>

definition newPromise :: "world \<Rightarrow> nat \<times> world" where
  "newPromise w = (promises w, w\<lparr>promises := Suc (promises w)\<rparr>)"

definition addListener :: "clientEvent \<Rightarrow> nat \<Rightarrow> world \<Rightarrow> world" where
  "addListener eventName callback w =
     w\<lparr>this := (this w)\<lparr>listeners :=
        (listeners (this w))(eventName := listeners (this w) eventName @ [callback])\<rparr>\<rparr>"

definition removeListener :: "clientEvent \<Rightarrow> nat \<Rightarrow> world \<Rightarrow> world" where
  "removeListener eventName callback w =
     w\<lparr>this := (this w)\<lparr>listeners :=
        (listeners (this w))(eventName :=
           filter (\<lambda>listener. listener \<noteq> callback) (listeners (this w) eventName))\<rparr>\<rparr>"

definition dispatch :: "clientEvent \<Rightarrow> world \<Rightarrow> world" where
  "dispatch eventName w = perform (map Callback (listeners (this w) eventName)) w"

text \<open>
  \<open>joinChannel\<close> makes a channel on the socket and pushes its join; the promise \<open>p\<close> of
  \<open>joinRoom\<close> waits for the reply.
\<close>

definition joinChannel :: "nat \<Rightarrow> jsstring \<Rightarrow> nat \<Rightarrow> jsstring \<Rightarrow> world \<Rightarrow> world" where
  "joinChannel socket channelString p roomName w =
     (let channel = channels w; ref = pushes w in
      perform [NewChannel channel socket channelString, Join channel ref]
        (w\<lparr>channels := Suc channel, pushes := Suc ref,
            awaiting := (awaiting w)(ref \<mapsto> JoinPush channel p roomName)\<rparr>))"

text \<open>The part of \<open>joinRoom\<close> after the test of \<open>this.phoenixSocket\<close>.\<close>

definition joinRoom_on :: "nat \<Rightarrow> nat \<Rightarrow> jsstring \<Rightarrow> world \<Rightarrow> world" where
  "joinRoom_on socket p roomName w =
     (case getProperty (joinedChannels (this w)) roomName of
        Some channel \<Rightarrow> settle p (Resolved channel) w
      | None \<Rightarrow>
          joinChannel socket (js ''rooms:'' @ realm (this w) @ js '':'' @ roomName) p roomName w)"

text \<open>
  \<open>openSocketConnection\<close>, with the continuation \<open>joinRoom\<close> gives it: the call of
  \<open>joinRoom(roomName)\<close> again, whose result settles \<open>p\<close>. With no socket stored, a new
  one is made and connected, and the continuation waits for it to open.
\<close>

definition openSocketConnection :: "nat \<Rightarrow> jsstring \<Rightarrow> world \<Rightarrow> world" where
  "openSocketConnection p roomName w =
     (case phoenixSocket (this w) of
        Some socket \<Rightarrow> joinRoom_on socket p roomName w
      | None \<Rightarrow>
          let socket = sockets w;
              socketUrl = WebSocket (apiConfig_phoenixSocket (this w) (this_config (this w)))
          in perform [NewSocket socket socketUrl (realm (this w)) (token (this w)), Connect socket]
               (w\<lparr>sockets := Suc socket,
                   connecting := (connecting w)(socket \<mapsto> (p, roomName))\<rparr>))"

definition joinRoom_for :: "nat \<Rightarrow> jsstring \<Rightarrow> world \<Rightarrow> world" where
  "joinRoom_for p roomName w =
     (case phoenixSocket (this w) of
        None \<Rightarrow> openSocketConnection p roomName w
      | Some socket \<Rightarrow> joinRoom_on socket p roomName w)"

definition joinRoom :: "jsstring \<Rightarrow> world \<Rightarrow> nat \<times> world" where
  "joinRoom roomName w = (case newPromise w of (p, w) \<Rightarrow> (p, joinRoom_for p roomName w))"

text \<open>
  In the three methods below, a truthy read that is a member of \<open>Object.prototype\<close>
  passes the guard; it has no method \<open>on\<close>, \<open>push\<close> or \<open>leave\<close>, the call of the
  missing method throws, and the promise of the method is rejected with that
  \<open>TypeError\<close>.
\<close>

definition listenForEvents :: "jsstring \<Rightarrow> nat \<Rightarrow> world \<Rightarrow> nat \<times> world" where
  "listenForEvents roomName eventHandler w =
     (case newPromise w of (p, w) \<Rightarrow>
        (p, case getProperty (joinedChannels (this w)) roomName of
              None \<Rightarrow>
                settle p
                  (Rejected (Error (js ''Can't listen for room events before joining it first''))) w
            | Some (Channel channel) \<Rightarrow>
                settle p Resolved_void (perform [On channel (js ''new_event'') eventHandler] w)
            | Some (Inherited member) \<Rightarrow> settle p (Rejected TypeError) w))"

definition registerVolatileTrigger :: "jsstring \<Rightarrow> nat \<Rightarrow> world \<Rightarrow> nat \<times> world" where
  "registerVolatileTrigger roomName triggerPayload w =
     (case newPromise w of (p, w) \<Rightarrow>
        (p, case getProperty (joinedChannels (this w)) roomName of
              None \<Rightarrow>
                settle p (Rejected (Error (js ''Room not joined, couldn't register trigger''))) w
            | Some (Channel channel) \<Rightarrow>
                let ref = pushes w in
                perform [Push channel ref (js ''watch'') triggerPayload]
                  (w\<lparr>pushes := Suc ref,
                      awaiting := (awaiting w)(ref \<mapsto> WatchPush channel p)\<rparr>)
            | Some (Inherited member) \<Rightarrow> settle p (Rejected TypeError) w))"

definition leaveRoom :: "jsstring \<Rightarrow> world \<Rightarrow> nat \<times> world" where
  "leaveRoom roomName w =
     (case newPromise w of (p, w) \<Rightarrow>
        (p, case getProperty (joinedChannels (this w)) roomName of
              None \<Rightarrow>
                settle p
                  (Rejected (Error (js ''Can't leave a room without joining it first''))) w
            | Some (Channel channel) \<Rightarrow>
                let ref = pushes w in
                perform [Leave channel ref]
                  (w\<lparr>pushes := Suc ref,
                      awaiting := (awaiting w)(ref \<mapsto> LeavePush channel p roomName)\<rparr>)
            | Some (Inherited member) \<Rightarrow> settle p (Rejected TypeError) w))"

text \<open>
  The events of the loop. When a socket opens, \<open>this.phoenixSocket\<close> is set and the
  waiting \<open>joinRoom\<close> runs again. \<open>Reply ref r\<close> is the \<open>ok\<close> or \<open>error\<close> hook of a push
  being run, on the server's reply or because phoenix answers the push itself (a leave
  on a channel that cannot push is answered \<open>ok\<close> at once; a second join of a topic on
  one socket closes the first channel, whose hooks then never run). An \<open>ok\<close> reply to
  a join stores the channel and resolves the promise; an \<open>error\<close> reply rejects the
  promise of \<open>joinChannel\<close>, on which \<open>joinRoom\<close> has registered a fulfilment handler
  only: nothing runs, and the promise \<open>joinRoom\<close> returned is left as it is.
  \<open>leaveRoom\<close> and \<open>registerVolatileTrigger\<close> return the promise of the push itself.
  A join is pushed only for a room name whose read in \<open>joinedChannels\<close> was
  \<open>undefined\<close>, so the name stored on its \<open>ok\<close> reply is never one of
  \<open>Object.prototype\<close>.
\<close>

datatype reply = Ok | Err nat

datatype event = SocketOpened nat | Reply nat reply | SocketErrored nat | SocketClosed nat

fun deliver :: "event \<Rightarrow> world \<Rightarrow> world" where
  "deliver (SocketOpened socket) w =
     (case connecting w socket of
        None \<Rightarrow> w
      | Some (p, roomName) \<Rightarrow>
          joinRoom_for p roomName
            (w\<lparr>this := (this w)\<lparr>phoenixSocket := Some socket\<rparr>,
                connecting := (connecting w)(socket := None)\<rparr>))"
| "deliver (Reply ref r) w =
     (case awaiting w ref of
        None \<Rightarrow> w
      | Some k \<Rightarrow>
          let w = w\<lparr>awaiting := (awaiting w)(ref := None)\<rparr> in
          (case k of
             JoinPush channel p roomName \<Rightarrow>
               (case r of
                  Ok \<Rightarrow>
                    settle p (Resolved (Channel channel))
                      (w\<lparr>this := (this w)\<lparr>joinedChannels :=
                          (joinedChannels (this w))(roomName \<mapsto> channel)\<rparr>\<rparr>)
                | Err e \<Rightarrow> w)
           | LeavePush channel p roomName \<Rightarrow>
               (case r of
                  Ok \<Rightarrow>
                    settle p Resolved_void
                      (w\<lparr>this := (this w)\<lparr>joinedChannels :=
                          (joinedChannels (this w))(roomName := None)\<rparr>\<rparr>)
                | Err e \<Rightarrow> settle p (Rejected (Remote e)) w)
           | WatchPush channel p \<Rightarrow>
               (case r of
                  Ok \<Rightarrow> settle p Resolved_void w
                | Err e \<Rightarrow> settle p (Rejected (Remote e)) w)))"
| "deliver (SocketErrored socket) w = dispatch SocketError w"
| "deliver (SocketClosed socket) w = dispatch SocketClose w"

text \<open>A client just constructed, and the world around it.\<close>

definition newClient :: "jsstring \<Rightarrow> jsstring \<Rightarrow> jsstring \<Rightarrow> client" where
  "newClient apiUrl r t =
     \<lparr>realm = r, token = t, appEngineApiUrl = apiUrl, flowApiUrl = apiUrl,
      pairingApiUrl = apiUrl, realmManagementApiUrl = apiUrl,
      phoenixSocket = None, joinedChannels = Map.empty, listeners = (\<lambda>eventName. [])\<rparr>"

definition newWorld :: "client \<Rightarrow> world" where
  "newWorld c =
     \<lparr>this = c, sockets = 0, channels = 0, pushes = 0, promises = 0,
      connecting = Map.empty, awaiting = Map.empty, settled = Map.empty, trace = []\<rparr>"

text \<open>The \<open>Join\<close> handshakes and the sockets connected in a trace.\<close>

fun isJoin :: "action \<Rightarrow> bool" where
  "isJoin (Join channel ref) = True"
| "isJoin a = False"

fun isConnect :: "action \<Rightarrow> bool" where
  "isConnect (Connect socket) = True"
| "isConnect a = False"

text \<open>
  A schedule is what happens to a client, in order: calls of \<open>joinRoom\<close> from outside
  (the promise a call returns is the number \<open>promises\<close> had before it) and events of
  the loop.
\<close>

datatype step = CallJoinRoom jsstring | Deliver event

fun run :: "step list \<Rightarrow> world \<Rightarrow> world" where
  "run [] w = w"
| "run (CallJoinRoom roomName # steps) w = run steps (snd (joinRoom roomName w))"
| "run (Deliver e # steps) w = run steps (deliver e w)"

section \<open>Properties\<close>

subsection \<open>Escapes are read back\<close>

lemma unat_hexDigit: "n < 16 \<Longrightarrow> unat (hexDigit n) = (if n < 10 then 0x30 + n else 0x37 + n)"
  by (simp add: hexDigit_def unat_of_nat)

lemma hexValue_hexDigit: "n < 16 \<Longrightarrow> hexValue (hexDigit n) = Some n"
  by (simp add: hexValue_def unat_hexDigit Let_def)

lemma parseHexOctet_hexDigit:
  "b < 256 \<Longrightarrow> parseHexOctet (hexDigit (b div 16)) (hexDigit (b mod 16)) = Some b"
  by (simp add: parseHexOctet_def hexValue_hexDigit)

lemma escapeOctets_Cons:
  "escapeOctets (b # bs) @ r =
     0x25 # hexDigit (b div 16) # hexDigit (b mod 16) # (escapeOctets bs @ r)"
  by (simp add: escapeOctets_def escapeOctet_def)

lemma escapeOctets_Nil: "escapeOctets [] @ r = r"
  by (simp add: escapeOctets_def)

lemma continuationOctets_escapeOctets:
  "\<forall>b \<in> set bs. b < 256 \<Longrightarrow> continuationOctets (length bs) (escapeOctets bs @ r) = Some bs"
  by (induction bs) (simp_all add: escapeOctets_Cons escapeOctets_Nil parseHexOctet_hexDigit)

lemma length_escapeOctets: "length (escapeOctets bs) = 3 * length bs"
  by (induction bs) (simp_all add: escapeOctets_def escapeOctet_def)

lemma uriUnescaped_not_percent: "uriUnescaped c \<Longrightarrow> c \<noteq> 0x25"
  by (auto simp add: uriUnescaped_def js_def)

lemma utf16Encode_unit: "utf16Encode (unat (c :: 16 word)) = [c]"
proof -
  have "unat c < 0x10000" using unsigned_less [of c] by simp
  then show ?thesis by (simp add: utf16Encode_def)
qed

lemma utf16Encode_pair:
  assumes "isLeadingSurrogate c" and "isTrailingSurrogate d"
  shows "utf16Encode (UTF16SurrogatePairToCodePoint c d) = [c, d]"
proof -
  define a where "a = unat c - 0xD800"
  define b where "b = unat d - 0xDC00"
  have a: "unat c = 0xD800 + a" "a < 0x400"
    using assms(1) unfolding a_def isLeadingSurrogate_def by arith+
  have b: "unat d = 0xDC00 + b" "b < 0x400"
    using assms(2) unfolding b_def isTrailingSurrogate_def by arith+
  have cp: "UTF16SurrogatePairToCodePoint c d = a * 0x400 + b + 0x10000"
    by (simp add: UTF16SurrogatePairToCodePoint_def a_def b_def)
  have d1: "b div 0x400 = 0" using b(2) by simp
  have d2: "b mod 0x400 = b" using b(2) by simp
  have "of_nat (0xD800 + a) = c" using a(1) [symmetric] by simp
  moreover have "of_nat (0xDC00 + b) = d" using b(1) [symmetric] by simp
  ultimately show ?thesis
    by (simp add: utf16Encode_def cp d1 d2)
qed

lemma scale64: "(A::nat) * 0x40 + B = q \<Longrightarrow> A * (0x40 * k) + B * k = q * k"
  by (auto simp add: algebra_simps)

lemma split3: "(cp::nat) div 0x1000 * 0x1000 + cp div 0x40 mod 0x40 * 0x40 + cp mod 0x40 = cp"
proof -
  have "cp div 0x1000 = cp div 0x40 div 0x40" by (simp add: div_mult2_eq)
  moreover have "cp div 0x40 div 0x40 * (0x40 * 0x40) + cp div 0x40 mod 0x40 * 0x40 = cp div 0x40 * 0x40"
    by (rule scale64) (rule div_mult_mod_eq)
  ultimately have "cp div 0x1000 * 0x1000 + cp div 0x40 mod 0x40 * 0x40 = cp div 0x40 * 0x40"
    by simp
  then show ?thesis by simp
qed

lemma split4:
  "(cp::nat) div 0x40000 * 0x40000 + cp div 0x1000 mod 0x40 * 0x1000 + cp div 0x40 mod 0x40 * 0x40 +
     cp mod 0x40 = cp"
proof -
  have "cp div 0x40000 = cp div 0x1000 div 0x40" by (simp add: div_mult2_eq)
  moreover have "cp div 0x1000 div 0x40 * (0x40 * 0x1000) + cp div 0x1000 mod 0x40 * 0x1000 = cp div 0x1000 * 0x1000"
    by (rule scale64) (rule div_mult_mod_eq)
  ultimately have "cp div 0x40000 * 0x40000 + cp div 0x1000 mod 0x40 * 0x1000 = cp div 0x1000 * 0x1000"
    by simp
  then show ?thesis using split3 [of cp] by simp
qed

lemma mod64_le: "(x::nat) mod 0x40 \<le> 0x3F"
proof -
  have "x mod 0x40 < 0x40" by (rule mod_less_divisor) simp
  then show ?thesis by simp
qed

lemma utf8Decode_utf8Encode2:
  "0x80 \<le> cp \<Longrightarrow> cp < 0x800 \<Longrightarrow> utf8Decode [0xC0 + cp div 0x40, 0x80 + cp mod 0x40] = Some cp"
  by (simp add: isContinuation_def Let_def)

lemma utf8Decode_utf8Encode3:
  "0x800 \<le> cp \<Longrightarrow> cp < 0x10000 \<Longrightarrow> \<not> (0xD800 \<le> cp \<and> cp \<le> 0xDFFF) \<Longrightarrow>
   utf8Decode [0xE0 + cp div 0x1000, 0x80 + cp div 0x40 mod 0x40, 0x80 + cp mod 0x40] = Some cp"
  using split3 [of cp] by (simp add: isContinuation_def Let_def mod64_le)

lemma utf8Decode_utf8Encode4:
  "0x10000 \<le> cp \<Longrightarrow> cp \<le> 0x10FFFF \<Longrightarrow>
   utf8Decode [0xF0 + cp div 0x40000, 0x80 + cp div 0x1000 mod 0x40,
         0x80 + cp div 0x40 mod 0x40, 0x80 + cp mod 0x40] = Some cp"
  using split4 [of cp] by (simp add: isContinuation_def Let_def mod64_le)

lemma utf8Encode_octets: "cp \<le> 0x10FFFF \<Longrightarrow> b \<in> set (utf8Encode cp) \<Longrightarrow> b < 256"
  unfolding utf8Encode_def by (auto split: if_splits)

lemma leadingOnes2: "cp < 0x800 \<Longrightarrow> leadingOnes (0xC0 + cp div 0x40) = 2"
proof -
  assume "cp < 0x800"
  then have "cp div 0x40 < 0x20" by simp
  then show ?thesis by (simp add: leadingOnes_def)
qed

lemma leadingOnes3: "cp < 0x10000 \<Longrightarrow> leadingOnes (0xE0 + cp div 0x1000) = 3"
proof -
  assume "cp < 0x10000"
  then have "cp div 0x1000 < 0x10" by simp
  then show ?thesis by (simp add: leadingOnes_def)
qed

lemma leadingOnes4: "cp \<le> 0x10FFFF \<Longrightarrow> leadingOnes (0xF0 + cp div 0x40000) = 4"
proof -
  assume "cp \<le> 0x10FFFF"
  then have "cp div 0x40000 < 0x8" by simp
  then show ?thesis by (simp add: leadingOnes_def)
qed

lemma decode_escaped_octets:
  assumes "utf8Encode cp = b # bs" and "cp \<le> 0x10FFFF"
    and "leadingOnes b = Suc (length bs)" and "bs \<noteq> []" and "length bs \<le> 3"
    and "utf8Decode (b # bs) = Some cp"
  shows "decodeURIComponent (escapeOctets (utf8Encode cp) @ r) =
     (case decodeURIComponent r of Inl e \<Rightarrow> Inl e | Inr r' \<Rightarrow> Inr (utf16Encode cp @ r'))"
proof -
  have oct: "\<forall>x \<in> set (b # bs). x < 256"
    using utf8Encode_octets [OF assms(2)] assms(1) by auto
  then have b: "b < 256" by simp
  have n: "\<not> 3 < length bs" using assms(5) by simp
  have c: "continuationOctets (length bs) (escapeOctets bs @ r) = Some bs"
    using oct by (intro continuationOctets_escapeOctets) simp
  show ?thesis
    unfolding assms(1) escapeOctets_Cons
    by (simp add: parseHexOctet_hexDigit [OF b] Let_def assms(3) assms(4) n c assms(6)
        length_escapeOctets del: utf8Decode.simps)
qed

lemma decode_escaped_code_point:
  assumes "cp \<le> 0x10FFFF" and "\<not> (0xD800 \<le> cp \<and> cp \<le> 0xDFFF)"
  shows "decodeURIComponent (escapeOctets (utf8Encode cp) @ r) =
     (case decodeURIComponent r of Inl e \<Rightarrow> Inl e | Inr r' \<Rightarrow> Inr (utf16Encode cp @ r'))"
proof -
  consider "cp < 0x80" | "0x80 \<le> cp" "cp < 0x800" | "0x800 \<le> cp" "cp < 0x10000"
    | "0x10000 \<le> cp"
    by linarith
  then show ?thesis
  proof cases
    case 1
    then have "cp < 256" "cp div 16 < 16" "cp < 0x10000" by simp_all
    with 1 show ?thesis
      by (cases "decodeURIComponent r")
        (simp_all add: utf8Encode_def escapeOctets_def escapeOctet_def parseHexOctet_hexDigit
          leadingOnes_def utf16Encode_def)
  next
    case 2
    then have e: "utf8Encode cp = [0xC0 + cp div 0x40, 0x80 + cp mod 0x40]"
      by (simp add: utf8Encode_def)
    show ?thesis
      by (rule decode_escaped_octets [OF e assms(1)])
        (simp_all add: leadingOnes2 2 utf8Decode_utf8Encode2 del: utf8Decode.simps)
  next
    case 3
    then have e: "utf8Encode cp =
        [0xE0 + cp div 0x1000, 0x80 + cp div 0x40 mod 0x40, 0x80 + cp mod 0x40]"
      by (simp add: utf8Encode_def)
    show ?thesis
      by (rule decode_escaped_octets [OF e assms(1)])
        (simp_all add: leadingOnes3 3 assms(2) utf8Decode_utf8Encode3 del: utf8Decode.simps)
  next
    case 4
    then have e: "utf8Encode cp =
        [0xF0 + cp div 0x40000, 0x80 + cp div 0x1000 mod 0x40,
         0x80 + cp div 0x40 mod 0x40, 0x80 + cp mod 0x40]"
      by (simp add: utf8Encode_def)
    show ?thesis
      by (rule decode_escaped_octets [OF e assms(1)])
        (simp_all add: leadingOnes4 4 assms(1) utf8Decode_utf8Encode4 del: utf8Decode.simps)
  qed
qed

lemma pair_code_point_range:
  assumes "isLeadingSurrogate c" and "isTrailingSurrogate d"
  shows "0x10000 \<le> UTF16SurrogatePairToCodePoint c d"
    and "UTF16SurrogatePairToCodePoint c d \<le> 0x10FFFF"
proof -
  have "unat c - 0xD800 \<le> 0x3FF"
    using assms(1) unfolding isLeadingSurrogate_def by arith
  then have "(unat c - 0xD800) * 0x400 \<le> 0x3FF * 0x400"
    by (rule mult_le_mono1)
  moreover have "unat d - 0xDC00 \<le> 0x3FF"
    using assms(2) unfolding isTrailingSurrogate_def by arith
  ultimately show "UTF16SurrogatePairToCodePoint c d \<le> 0x10FFFF"
    unfolding UTF16SurrogatePairToCodePoint_def by simp
  show "0x10000 \<le> UTF16SurrogatePairToCodePoint c d"
    unfolding UTF16SurrogatePairToCodePoint_def by simp
qed

lemma decode_encode:
  "encodeURIComponent s = Inr e \<Longrightarrow> decodeURIComponent e = Inr s"
proof (induction s arbitrary: e rule: encodeURIComponent.induct)
  case 1
  then show ?case by simp
next
  case (2 c cs)
  show ?case
  proof (cases "uriUnescaped c")
    case True
    with "2.prems" obtain r where r: "encodeURIComponent cs = Inr r" "e = c # r"
      by (auto split: sum.splits)
    from "2.IH"(1) [OF True r(1)] show ?thesis
      using uriUnescaped_not_percent [OF True] r(2) by simp
  next
    case False
    show ?thesis
    proof (cases "isLeadingSurrogate c")
      case lead: True
      with False "2.prems" obtain d ds r where d: "cs = d # ds" "isTrailingSurrogate d"
        "encodeURIComponent ds = Inr r"
        "e = escapeOctets (utf8Encode (UTF16SurrogatePairToCodePoint c d)) @ r"
        by (auto split: sum.splits list.splits if_splits)
      have ih: "decodeURIComponent r = Inr ds"
        using "2.IH"(2) [OF False lead d(1) d(2) d(3)] .
      have rng: "UTF16SurrogatePairToCodePoint c d \<le> 0x10FFFF"
        "\<not> (0xD800 \<le> UTF16SurrogatePairToCodePoint c d \<and> UTF16SurrogatePairToCodePoint c d \<le> 0xDFFF)"
        using pair_code_point_range [OF lead d(2)] by simp_all
      show ?thesis
        unfolding d(4) decode_escaped_code_point [OF rng]
        by (simp add: ih utf16Encode_pair [OF lead d(2)] d(1))
    next
      case nolead: False
      with False "2.prems" obtain r where r: "\<not> isTrailingSurrogate c"
        "encodeURIComponent cs = Inr r" "e = escapeOctets (utf8Encode (unat c)) @ r"
        by (auto split: sum.splits if_splits)
      have ih: "decodeURIComponent r = Inr cs"
        using "2.IH"(3) [OF False nolead r(1) r(2)] .
      have "unat c < 0x10000" using unsigned_less [of c] by simp
      then have rng: "unat c \<le> 0x10FFFF" "\<not> (0xD800 \<le> unat c \<and> unat c \<le> 0xDFFF)"
        using nolead r(1) by (auto simp add: isLeadingSurrogate_def isTrailingSurrogate_def)
      show ?thesis
        unfolding r(3) decode_escaped_code_point [OF rng]
        by (simp add: ih utf16Encode_unit)
    qed
  qed
qed

subsection \<open>Relative URLs are resolved\<close>

lemma toScalarValues_ascii:
  "list_all (\<lambda>c. unat c < 0x80) s \<Longrightarrow> toScalarValues s = map unat s"
  by (induction s rule: toScalarValues.induct)
    (simp_all add: isLeadingSurrogate_def isTrailingSurrogate_def)

lemma trimInput_visible:
  assumes "list_all (\<lambda>c. 0x20 < c) input"
  shows "trimInput input = input"
proof -
  have d: "\<And>xs. list_all (\<lambda>c. (0x20::nat) < c) xs \<Longrightarrow> dropWhile (\<lambda>c. c \<le> 0x20) xs = xs"
    by (case_tac xs) simp_all
  have r: "list_all (\<lambda>c. 0x20 < c) (rev input)"
    using assms by (simp add: list_all_iff)
  have f: "filter (\<lambda>c. c \<noteq> 0x09 \<and> c \<noteq> 0x0A \<and> c \<noteq> 0x0D) input = input"
    using assms by (induction input) auto
  show ?thesis
    unfolding trimInput_def by (simp add: d [OF r] d [OF assms] f)
qed

lemma pathChar_keeps: "pathChar c \<Longrightarrow> percentEncodeWith inPathSet (unat c) = [c]"
  by (simp add: pathChar_def percentEncodeWith_def inPathSet_def inQuerySet_def
      inC0ControlSet_def)

lemma pathChar_no_delimiter:
  "pathChar c \<Longrightarrow> unat c \<noteq> 0x2F \<and> unat c \<noteq> 0x5C \<and> unat c \<noteq> 0x3F \<and> unat c \<noteq> 0x23"
  by (simp add: pathChar_def)

lemma pathChar_visible: "pathChar c \<Longrightarrow> 0x20 < unat c \<and> unat c < 0x80"
  by (simp add: pathChar_def)

lemma pathState_chars:
  "list_all pathChar s \<Longrightarrow>
   pathState path buffer (map unat s @ rest) = pathState path (buffer @ s) rest"
proof (induction s arbitrary: buffer)
  case Nil
  then show ?case by simp
next
  case (Cons c s)
  then have c: "pathChar c" and s: "list_all pathChar s" by simp_all
  from pathChar_no_delimiter [OF c] pathChar_keeps [OF c] Cons.IH [OF s, of "buffer @ [c]"]
  show ?case by simp
qed

lemma pathState_chars_end:
  "list_all pathChar s \<Longrightarrow>
   pathState path buffer (map unat s) = (endSegment path (buffer @ s) False, NoQuery, None)"
  using pathState_chars [of s path buffer "[]"] by simp

lemma endSegment_plain:
  "plainSegment s \<Longrightarrow> endSegment path s slash = appendSegment path s"
  by (simp add: endSegment_def plainSegment_def)

lemma relativeURL_v1:
  assumes "list_all (\<lambda>c. 0x20 < unat c \<and> unat c < 0x80) rest"
  shows "relativeURL base (js ''v1/'' @ rest) =
     (case pathState (BasePath 1 [js ''v1'']) [] (map unat rest) of (p, q, f) \<Rightarrow> URL base p q f)"
proof -
  have a: "list_all (\<lambda>c. unat c < 0x80) (js ''v1/'' @ rest)"
    using assms by (simp add: js_def list_all_iff)
  have s: "toScalarValues (js ''v1/'' @ rest) = 0x76 # 0x31 # 0x2F # map unat rest"
    unfolding toScalarValues_ascii [OF a] by (simp add: js_def)
  have v: "list_all (\<lambda>c. 0x20 < c) (0x76 # 0x31 # 0x2F # map unat rest)"
    using assms by (simp add: list_all_iff)
  have n: "\<not> startsWithScheme (0x76 # 0x31 # 0x2F # map unat rest)"
    by (simp add: startsWithScheme_def isSchemeChar_def isASCIIAlpha_def)
  have p: "pathState (BasePath (Suc 0) []) [] (0x76 # 0x31 # 0x2F # map unat rest) =
      pathState (BasePath (Suc 0) [js ''v1'']) [] (map unat rest)"
    by (simp add: percentEncodeWith_def inPathSet_def inQuerySet_def inC0ControlSet_def
        endSegment_def isDoubleDotSegment_def isSingleDotSegment_def js_def)
  show ?thesis
    unfolding relativeURL_def s trimInput_visible [OF v]
    using n by (simp add: p del: pathState.simps)
qed

lemma plainSegment_chars: "plainSegment s \<Longrightarrow> list_all pathChar s"
  by (simp add: plainSegment_def)

lemma pathChars_visible:
  "list_all pathChar s \<Longrightarrow> list_all (\<lambda>c. 0x20 < unat c \<and> unat c < 0x80) s"
  by (induction s) (simp_all add: pathChar_def)

lemma literal_pathChars:
  "list_all pathChar (js ''v1'')" "list_all pathChar (js ''groups'')"
  "list_all pathChar (js ''devices'')" "list_all pathChar (js ''blocks'')"
  by (simp_all add: js_def pathChar_def)

lemma literal_plain:
  "plainSegment (js ''v1'')" "plainSegment (js ''groups'')"
  "plainSegment (js ''devices'')" "plainSegment (js ''blocks'')"
  by (simp_all add: plainSegment_def literal_pathChars)
    (simp_all add: isSingleDotSegment_def isDoubleDotSegment_def js_def)

lemma literal_split:
  "js ''/groups/'' = 0x2F # js ''groups'' @ [0x2F]"
  "js ''/devices'' = 0x2F # js ''devices''"
  "js ''/devices/'' = 0x2F # js ''devices'' @ [0x2F]"
  "js ''/blocks'' = 0x2F # js ''blocks''"
  "js ''/blocks/'' = 0x2F # js ''blocks'' @ [0x2F]"
  by (simp_all add: js_def)

lemma pathState_slash:
  "pathState path buffer (0x2F # rest) = pathState (endSegment path buffer True) [] rest"
  by simp

lemma groupDevices_resolved:
  assumes "plainSegment r" and "list_all pathChar g"
  shows "relativeURL base (js ''v1/'' @ r @ js ''/groups/'' @ g @ js ''/devices'') =
     URL base
       (appendSegment (endSegment (BasePath 1 [js ''v1'', r, js ''groups'']) g True)
          (js ''devices''))
       NoQuery None"
proof -
  have c: "list_all pathChar r" using assms(1) by (rule plainSegment_chars)
  have v: "list_all (\<lambda>c. 0x20 < unat c \<and> unat c < 0x80)
      (r @ js ''/groups/'' @ g @ js ''/devices'')"
    using pathChars_visible [OF c] pathChars_visible [OF assms(2)] by (simp add: js_def)
  have "pathState (BasePath 1 [js ''v1'']) []
      (map unat (r @ js ''/groups/'' @ g @ js ''/devices'')) =
      (appendSegment (endSegment (BasePath 1 [js ''v1'', r, js ''groups'']) g True)
          (js ''devices''), NoQuery, None)"
    unfolding literal_split
    by (simp add: pathState_chars pathState_chars_end pathState_slash c assms(2)
        literal_pathChars endSegment_plain [OF assms(1)] endSegment_plain [OF literal_plain(2)]
        endSegment_plain [OF literal_plain(3)]
        del: pathState.simps)
  then show ?thesis
    unfolding relativeURL_v1 [OF v] by simp
qed

lemma deviceInGroup_resolved:
  assumes "plainSegment r" and "list_all pathChar g" and "plainSegment d"
  shows "relativeURL base (js ''v1/'' @ r @ js ''/groups/'' @ g @ js ''/devices/'' @ d) =
     URL base
       (appendSegment
          (appendSegment (endSegment (BasePath 1 [js ''v1'', r, js ''groups'']) g True)
             (js ''devices''))
          d)
       NoQuery None"
proof -
  have c: "list_all pathChar r" using assms(1) by (rule plainSegment_chars)
  have e: "list_all pathChar d" using assms(3) by (rule plainSegment_chars)
  have v: "list_all (\<lambda>c. 0x20 < unat c \<and> unat c < 0x80)
      (r @ js ''/groups/'' @ g @ js ''/devices/'' @ d)"
    using pathChars_visible [OF c] pathChars_visible [OF assms(2)] pathChars_visible [OF e]
    by (simp add: js_def)
  have "pathState (BasePath 1 [js ''v1'']) []
      (map unat (r @ js ''/groups/'' @ g @ js ''/devices/'' @ d)) =
      (appendSegment
          (appendSegment (endSegment (BasePath 1 [js ''v1'', r, js ''groups'']) g True)
             (js ''devices''))
          d, NoQuery, None)"
    unfolding literal_split
    by (simp add: pathState_chars pathState_chars_end pathState_slash c e assms(2)
        literal_pathChars endSegment_plain [OF assms(1)] endSegment_plain [OF assms(3)]
        endSegment_plain [OF literal_plain(2)] endSegment_plain [OF literal_plain(3)]
        del: pathState.simps)
  then show ?thesis
    unfolding relativeURL_v1 [OF v] by simp
qed

lemma blocks_resolved:
  assumes "plainSegment r"
  shows "relativeURL base (js ''v1/'' @ r @ js ''/blocks'') =
     URL base (BasePath 1 [js ''v1'', r, js ''blocks'']) NoQuery None"
proof -
  have c: "list_all pathChar r" using assms by (rule plainSegment_chars)
  have v: "list_all (\<lambda>c. 0x20 < unat c \<and> unat c < 0x80) (r @ js ''/blocks'')"
    using pathChars_visible [OF c] by (simp add: js_def)
  have "pathState (BasePath 1 [js ''v1'']) [] (map unat (r @ js ''/blocks'')) =
      (BasePath 1 [js ''v1'', r, js ''blocks''], NoQuery, None)"
    unfolding literal_split
    by (simp add: pathState_chars pathState_chars_end pathState_slash c
        literal_pathChars endSegment_plain [OF assms] endSegment_plain [OF literal_plain(4)]
        del: pathState.simps)
  then show ?thesis
    unfolding relativeURL_v1 [OF v] by simp
qed

lemma blockSource_resolved:
  assumes "plainSegment r" and "plainSegment b"
  shows "relativeURL base (js ''v1/'' @ r @ js ''/blocks/'' @ b) =
     URL base (BasePath 1 [js ''v1'', r, js ''blocks'', b]) NoQuery None"
proof -
  have c: "list_all pathChar r" using assms(1) by (rule plainSegment_chars)
  have e: "list_all pathChar b" using assms(2) by (rule plainSegment_chars)
  have v: "list_all (\<lambda>c. 0x20 < unat c \<and> unat c < 0x80) (r @ js ''/blocks/'' @ b)"
    using pathChars_visible [OF c] pathChars_visible [OF e] by (simp add: js_def)
  have "pathState (BasePath 1 [js ''v1'']) [] (map unat (r @ js ''/blocks/'' @ b)) =
      (BasePath 1 [js ''v1'', r, js ''blocks'', b], NoQuery, None)"
    unfolding literal_split
    by (simp add: pathState_chars pathState_chars_end pathState_slash c e
        literal_pathChars endSegment_plain [OF assms(1)] endSegment_plain [OF assms(2)]
        endSegment_plain [OF literal_plain(4)]
        del: pathState.simps)
  then show ?thesis
    unfolding relativeURL_v1 [OF v] by simp
qed

lemma plain_samples:
  "plainSegment (js ''test'')" "plainSegment (js ''custom'')" "plainSegment (js ''dev'')"
  by (simp_all add: plainSegment_def)
    (simp_all add: js_def pathChar_def isSingleDotSegment_def isDoubleDotSegment_def)

subsection \<open>Endpoints\<close>

lemma blocks_endpoint:
  "apiConfig_blocks c (this_config c) =
     relativeURL (flowApiUrl c) (js ''v1/'' @ realm c @ js ''/blocks'')"
  by (simp add: apiConfig_blocks_def astarteAPIurl_def this_config_def)

lemma blockSource_endpoint:
  "apiConfig_blockSource c ((this_config c)(''blockId'' \<mapsto> blockId)) =
     relativeURL (flowApiUrl c) (js ''v1/'' @ realm c @ js ''/blocks/'' @ blockId)"
  by (simp add: apiConfig_blockSource_def astarteAPIurl_def this_config_def)

lemma groupDevices_endpoint:
  "apiConfig_groupDevices c ((this_config c)(''groupName'' \<mapsto> g)) =
     relativeURL (appEngineApiUrl c) (js ''v1/'' @ realm c @ js ''/groups/'' @ g @ js ''/devices'')"
  by (simp add: apiConfig_groupDevices_def astarteAPIurl_def this_config_def)

lemma deviceInGroup_endpoint:
  "apiConfig_deviceInGroup c ((this_config c)(''groupName'' \<mapsto> g, ''deviceId'' \<mapsto> d)) =
     relativeURL (appEngineApiUrl c)
       (js ''v1/'' @ realm c @ js ''/groups/'' @ g @ js ''/devices/'' @ d)"
  by (simp add: apiConfig_deviceInGroup_def astarteAPIurl_def this_config_def)

subsection \<open>Group membership: empty identifiers\<close>

text \<open>
  C6. When the group name or the device ID is the empty string, \<open>addDeviceToGroup\<close> and
  \<open>removeDeviceFromGroup\<close> issue no HTTP request and reject with an error that names
  the invalid argument (the group name first).
\<close>

theorem group_membership_rejects_empty:
  "groupName = [] \<or> deviceId = [] \<Longrightarrow>
   addDeviceToGroup server c groupName deviceId =
     ([], Inl (Error (if groupName = [] then js ''Invalid group name''
                      else js ''Invalid device ID''))) \<and>
   removeDeviceFromGroup server' c groupName deviceId =
     ([], Inl (Error (if groupName = [] then js ''Invalid group name''
                      else js ''Invalid device ID'')))"
  by (auto simp add: addDeviceToGroup_def removeDeviceFromGroup_def)

theorem group_membership_rejects_empty_witness:
  "addDeviceToGroup (\<lambda>r. Inr \<lparr>resp_data = (), resp_links = None\<rparr>)
      (newClient (js ''https://api/'') (js ''test'') (js ''t'')) [] (js ''dev'') =
     ([], Inl (Error (js ''Invalid group name''))) \<and>
   removeDeviceFromGroup (\<lambda>r :: unit request. Inr \<lparr>resp_data = (), resp_links = None\<rparr>)
      (newClient (js ''https://api/'') (js ''test'') (js ''t'')) (js ''grp'') [] =
     ([], Inl (Error (js ''Invalid device ID'')))"
  using
    group_membership_rejects_empty [of "[]" "js ''dev''"
      "\<lambda>r. Inr \<lparr>resp_data = (), resp_links = None\<rparr>"
      "newClient (js ''https://api/'') (js ''test'') (js ''t'')"
      "\<lambda>r :: unit request. Inr \<lparr>resp_data = (), resp_links = None\<rparr>"]
    group_membership_rejects_empty [of "js ''grp''" "[]"
      "\<lambda>r. Inr \<lparr>resp_data = (), resp_links = None\<rparr>"
      "newClient (js ''https://api/'') (js ''test'') (js ''t'')"
      "\<lambda>r :: unit request. Inr \<lparr>resp_data = (), resp_links = None\<rparr>"]
  by (simp add: js_def)

subsection \<open>Blocks: built-in names are reserved\<close>

text \<open>
  C7. \<open>registerBlock\<close> on a block whose name is the name of a built-in block rejects
  with the naming-conflict error and issues no HTTP request; on any other block it
  issues the POST of the block to the blocks endpoint.
\<close>

theorem registerBlock_builtin_conflict:
  "(name block \<in> set (map name staticBlocks) \<longrightarrow>
      registerBlock staticBlocks server c block =
        ([], Inl (Error (js ''The block's name already exists'')))) \<and>
   (name block \<notin> set (map name staticBlocks) \<longrightarrow>
      fst (registerBlock staticBlocks server c block) =
        [\<lparr>req_method = POST,
          req_url = relativeURL (flowApiUrl c) (js ''v1/'' @ realm c @ js ''/blocks''),
          req_authorization = js ''Bearer '' @ token c,
          req_contentType = js ''application/json;charset=UTF-8'',
          req_body = Some block\<rparr>])"
  by (simp add: registerBlock_def await_request_def post_request_def blocks_endpoint
      bearer_def Let_def)

theorem registerBlock_builtin_conflict_witness:
  "registerBlock [\<lparr>name = js ''filter''\<rparr>]
      (\<lambda>r. Inr \<lparr>resp_data = (), resp_links = None\<rparr>)
      (newClient (js ''https://api/'') (js ''test'') (js ''t'')) \<lparr>name = js ''filter''\<rparr> =
     ([], Inl (Error (js ''The block's name already exists''))) \<and>
   fst (registerBlock [\<lparr>name = js ''filter''\<rparr>]
      (\<lambda>r. Inr \<lparr>resp_data = (), resp_links = None\<rparr>)
      (newClient (js ''https://api/'') (js ''test'') (js ''t'')) \<lparr>name = js ''custom''\<rparr>) =
     [\<lparr>req_method = POST,
       req_url = URL (js ''https://api/'') (BasePath 1 [js ''v1'', js ''test'', js ''blocks''])
                   NoQuery None,
       req_authorization = js ''Bearer t'',
       req_contentType = js ''application/json;charset=UTF-8'',
       req_body = Some \<lparr>name = js ''custom''\<rparr>\<rparr>]"
  using
    registerBlock_builtin_conflict [of "\<lparr>name = js ''filter''\<rparr>" "[\<lparr>name = js ''filter''\<rparr>]"
      "\<lambda>r. Inr \<lparr>resp_data = (), resp_links = None\<rparr>"
      "newClient (js ''https://api/'') (js ''test'') (js ''t'')"]
    registerBlock_builtin_conflict [of "\<lparr>name = js ''custom''\<rparr>" "[\<lparr>name = js ''filter''\<rparr>]"
      "\<lambda>r. Inr \<lparr>resp_data = (), resp_links = None\<rparr>"
      "newClient (js ''https://api/'') (js ''test'') (js ''t'')"]
    blocks_resolved [OF plain_samples(1), of "js ''https://api/''"]
  by (simp add: newClient_def) (simp add: js_def)

text \<open>
  C8. \<open>deleteBlock\<close> on the name of a built-in block rejects and issues no HTTP
  request; on any other block ID it issues exactly one request, the DELETE of that
  block's source endpoint.
\<close>

theorem deleteBlock_builtin_refused:
  "(blockId \<in> set (map name staticBlocks) \<longrightarrow>
      deleteBlock staticBlocks server c blockId =
        ([], Inl (Error (js ''Cannot delete a native block'')))) \<and>
   (blockId \<notin> set (map name staticBlocks) \<longrightarrow>
      fst (deleteBlock staticBlocks server c blockId) =
        [\<lparr>req_method = DELETE,
          req_url =
            relativeURL (flowApiUrl c) (js ''v1/'' @ realm c @ js ''/blocks/'' @ blockId),
          req_authorization = js ''Bearer '' @ token c,
          req_contentType = js ''application/json;charset=UTF-8'',
          req_body = None\<rparr>])"
  by (simp add: deleteBlock_def await_request_def delete_request_def blockSource_endpoint
      bearer_def Let_def)

theorem deleteBlock_builtin_refused_witness:
  "deleteBlock [\<lparr>name = js ''filter''\<rparr>]
      (\<lambda>r :: unit request. Inr \<lparr>resp_data = (), resp_links = None\<rparr>)
      (newClient (js ''https://api/'') (js ''test'') (js ''t'')) (js ''filter'') =
     ([], Inl (Error (js ''Cannot delete a native block''))) \<and>
   fst (deleteBlock [\<lparr>name = js ''filter''\<rparr>]
      (\<lambda>r :: unit request. Inr \<lparr>resp_data = (), resp_links = None\<rparr>)
      (newClient (js ''https://api/'') (js ''test'') (js ''t'')) (js ''custom'')) =
     [\<lparr>req_method = DELETE,
       req_url = URL (js ''https://api/'')
                   (BasePath 1 [js ''v1'', js ''test'', js ''blocks'', js ''custom''])
                   NoQuery None,
       req_authorization = js ''Bearer t'',
       req_contentType = js ''application/json;charset=UTF-8'',
       req_body = None\<rparr>]"
  using
    deleteBlock_builtin_refused [of "js ''filter''" "[\<lparr>name = js ''filter''\<rparr>]"
      "\<lambda>r :: unit request. Inr \<lparr>resp_data = (), resp_links = None\<rparr>"
      "newClient (js ''https://api/'') (js ''test'') (js ''t'')"]
    deleteBlock_builtin_refused [of "js ''custom''" "[\<lparr>name = js ''filter''\<rparr>]"
      "\<lambda>r :: unit request. Inr \<lparr>resp_data = (), resp_links = None\<rparr>"
      "newClient (js ''https://api/'') (js ''test'') (js ''t'')"]
    blockSource_resolved [OF plain_samples(1) plain_samples(2), of "js ''https://api/''"]
  by (simp add: newClient_def) (simp add: js_def)

lemma pipelines_sample:
  "relativeURL base (js ''v1/test/blocks/../pipelines/p'') =
     URL base (BasePath 1 [js ''v1'', js ''test'', js ''pipelines'', js ''p'']) NoQuery None"
proof -
  have e: "js ''v1/test/blocks/../pipelines/p'' = js ''v1/'' @ js ''test/blocks/../pipelines/p''"
    by (simp add: js_def)
  have v: "list_all (\<lambda>c. 0x20 < unat c \<and> unat c < 0x80) (js ''test/blocks/../pipelines/p'')"
    by (simp add: js_def)
  have "pathState (BasePath 1 [js ''v1'']) [] (map unat (js ''test/blocks/../pipelines/p'')) =
      (BasePath 1 [js ''v1'', js ''test'', js ''pipelines'', js ''p''], NoQuery, None)"
    by (simp add: js_def percentEncodeWith_def inPathSet_def inQuerySet_def inC0ControlSet_def
        endSegment_def isDoubleDotSegment_def isSingleDotSegment_def)
  then show ?thesis
    unfolding e relativeURL_v1 [OF v] by simp
qed

text \<open>
  C10, as stated, fails. \<open>getBlock\<close> puts the block ID into the endpoint as it is, and
  the URL parser reads \<open>..\<close> and \<open>/\<close> in it: for the ID \<open>../pipelines/p\<close>, not a
  built-in name, the GET goes to the path \<open>v1/test/pipelines/p\<close>, outside the blocks
  endpoint.
\<close>

theorem getBlock_id_resolved_outside_blocks:
  "getBlock [\<lparr>name = js ''filter'', \<dots> = (1::nat)\<rparr>] id
      (\<lambda>r :: unit request.
         Inr \<lparr>resp_data = \<lparr>name = js ''p'', \<dots> = 3\<rparr>, resp_links = None\<rparr>)
      (newClient (js ''https://api/'') (js ''test'') (js ''t'')) (js ''../pipelines/p'') =
     ([\<lparr>req_method = GET,
        req_url = URL (js ''https://api/'')
                    (BasePath 1 [js ''v1'', js ''test'', js ''pipelines'', js ''p''])
                    NoQuery None,
        req_authorization = js ''Bearer t'',
        req_contentType = js ''application/json;charset=UTF-8'',
        req_body = None\<rparr>], Inr \<lparr>name = js ''p'', \<dots> = 3\<rparr>)"
proof -
  have n: "js ''../pipelines/p'' \<noteq> js ''filter''" by (simp add: js_def)
  have e: "js ''v1/'' @ js ''test'' @ js ''/blocks/'' @ js ''../pipelines/p'' =
      js ''v1/test/blocks/../pipelines/p''"
    by (simp add: js_def)
  show ?thesis
    using n
    by (simp add: getBlock_def await_request_def get_request_def blockSource_endpoint
        bearer_def newClient_def e pipelines_sample)
      (simp add: js_def)
qed

text \<open>
  C10, amended. \<open>getBlock\<close> on the name of a built-in block returns the transform of the
  first built-in block of that name and issues no HTTP request. On any other block ID
  it issues one GET, of \<open>new URL\<close> of \<open>v1/\<close>, the realm, \<open>/blocks/\<close> and the ID as given,
  and returns the transform of the response's data (or the failure of the call). When
  the realm and the ID are plain path segments and the ID is not empty, that URL is the
  block's source endpoint: the directory of the flow API's base, then \<open>v1\<close>, the realm,
  \<open>blocks\<close> and the ID.
\<close>

theorem getBlock_static_or_fetched:
  "(blockId \<in> set (map name staticBlocks) \<longrightarrow>
      (\<exists>blockDTO. find (\<lambda>block. name block = blockId) staticBlocks = Some blockDTO \<and>
         blockDTO \<in> set staticBlocks \<and> name blockDTO = blockId \<and>
         getBlock staticBlocks toAstarteBlock server c blockId =
           ([], Inr (toAstarteBlock blockDTO)))) \<and>
   (blockId \<notin> set (map name staticBlocks) \<longrightarrow>
      (\<exists>r. r = \<lparr>req_method = GET,
               req_url =
                 relativeURL (flowApiUrl c) (js ''v1/'' @ realm c @ js ''/blocks/'' @ blockId),
               req_authorization = js ''Bearer '' @ token c,
               req_contentType = js ''application/json;charset=UTF-8'',
               req_body = None\<rparr> \<and>
           getBlock staticBlocks toAstarteBlock server c blockId =
             ([r], case server r of
                     Inl e \<Rightarrow> Inl e
                   | Inr response \<Rightarrow> Inr (toAstarteBlock (resp_data response))))) \<and>
   (blockId \<notin> set (map name staticBlocks) \<and> plainSegment (realm c) \<and>
    plainSegment blockId \<and> blockId \<noteq> [] \<longrightarrow>
      (\<exists>r. r = \<lparr>req_method = GET,
               req_url = URL (flowApiUrl c)
                           (BasePath 1 [js ''v1'', realm c, js ''blocks'', blockId])
                           NoQuery None,
               req_authorization = js ''Bearer '' @ token c,
               req_contentType = js ''application/json;charset=UTF-8'',
               req_body = None\<rparr> \<and>
           getBlock staticBlocks toAstarteBlock server c blockId =
             ([r], case server r of
                     Inl e \<Rightarrow> Inl e
                   | Inr response \<Rightarrow> Inr (toAstarteBlock (resp_data response)))))"
proof (intro conjI impI)
  assume "blockId \<in> set (map name staticBlocks)"
  then obtain b where b: "b \<in> set staticBlocks" "name b = blockId" by auto
  then have "find (\<lambda>block. name block = blockId) staticBlocks \<noteq> None"
    by (auto simp add: find_None_iff)
  then obtain blockDTO where f: "find (\<lambda>block. name block = blockId) staticBlocks = Some blockDTO"
    by auto
  then have "blockDTO \<in> set staticBlocks \<and> name blockDTO = blockId"
    by (auto simp add: find_Some_iff)
  with f b show "\<exists>blockDTO. find (\<lambda>block. name block = blockId) staticBlocks = Some blockDTO \<and>
         blockDTO \<in> set staticBlocks \<and> name blockDTO = blockId \<and>
         getBlock staticBlocks toAstarteBlock server c blockId =
           ([], Inr (toAstarteBlock blockDTO))"
    by (auto simp add: getBlock_def)
next
  assume "blockId \<notin> set (map name staticBlocks)"
  then show "\<exists>r. r = \<lparr>req_method = GET,
               req_url =
                 relativeURL (flowApiUrl c) (js ''v1/'' @ realm c @ js ''/blocks/'' @ blockId),
               req_authorization = js ''Bearer '' @ token c,
               req_contentType = js ''application/json;charset=UTF-8'',
               req_body = None\<rparr> \<and>
           getBlock staticBlocks toAstarteBlock server c blockId =
             ([r], case server r of
                     Inl e \<Rightarrow> Inl e
                   | Inr response \<Rightarrow> Inr (toAstarteBlock (resp_data response)))"
    by (simp add: getBlock_def await_request_def get_request_def blockSource_endpoint
        bearer_def Let_def)
next
  assume a: "blockId \<notin> set (map name staticBlocks) \<and> plainSegment (realm c) \<and>
    plainSegment blockId \<and> blockId \<noteq> []"
  then have "relativeURL (flowApiUrl c) (js ''v1/'' @ realm c @ js ''/blocks/'' @ blockId) =
      URL (flowApiUrl c) (BasePath 1 [js ''v1'', realm c, js ''blocks'', blockId]) NoQuery None"
    by (simp add: blockSource_resolved)
  with a show "\<exists>r. r = \<lparr>req_method = GET,
               req_url = URL (flowApiUrl c)
                           (BasePath 1 [js ''v1'', realm c, js ''blocks'', blockId])
                           NoQuery None,
               req_authorization = js ''Bearer '' @ token c,
               req_contentType = js ''application/json;charset=UTF-8'',
               req_body = None\<rparr> \<and>
           getBlock staticBlocks toAstarteBlock server c blockId =
             ([r], case server r of
                     Inl e \<Rightarrow> Inl e
                   | Inr response \<Rightarrow> Inr (toAstarteBlock (resp_data response)))"
    by (simp add: getBlock_def await_request_def get_request_def blockSource_endpoint
        bearer_def Let_def)
qed

theorem getBlock_static_or_fetched_witness:
  "getBlock [\<lparr>name = js ''filter'', \<dots> = (1::nat)\<rparr>, \<lparr>name = js ''filter'', \<dots> = 2\<rparr>] id
      (\<lambda>r :: unit request. Inr \<lparr>resp_data = \<lparr>name = js ''filter'', \<dots> = 3\<rparr>, resp_links = None\<rparr>)
      (newClient (js ''https://api/'') (js ''test'') (js ''t'')) (js ''filter'') =
     ([], Inr \<lparr>name = js ''filter'', \<dots> = 1\<rparr>) \<and>
   getBlock [\<lparr>name = js ''filter'', \<dots> = (1::nat)\<rparr>, \<lparr>name = js ''filter'', \<dots> = 2\<rparr>] id
      (\<lambda>r :: unit request. Inr \<lparr>resp_data = \<lparr>name = js ''custom'', \<dots> = 3\<rparr>, resp_links = None\<rparr>)
      (newClient (js ''https://api/'') (js ''test'') (js ''t'')) (js ''custom'') =
     ([\<lparr>req_method = GET,
        req_url = URL (js ''https://api/'')
                    (BasePath 1 [js ''v1'', js ''test'', js ''blocks'', js ''custom''])
                    NoQuery None,
        req_authorization = js ''Bearer t'',
        req_contentType = js ''application/json;charset=UTF-8'',
        req_body = None\<rparr>], Inr \<lparr>name = js ''custom'', \<dots> = 3\<rparr>)"
proof -
  let ?c = "newClient (js ''https://api/'') (js ''test'') (js ''t'')"
  let ?static = "[\<lparr>name = js ''filter'', \<dots> = (1::nat)\<rparr>, \<lparr>name = js ''filter'', \<dots> = 2\<rparr>]"
  have c: "realm ?c = js ''test''" "flowApiUrl ?c = js ''https://api/''" "token ?c = js ''t''"
    by (simp_all add: newClient_def)
  have m: "js ''filter'' \<in> set (map name ?static)" by simp
  have n: "js ''custom'' \<notin> set (map name ?static) \<and> plainSegment (realm ?c) \<and>
      plainSegment (js ''custom'') \<and> js ''custom'' \<noteq> []"
    unfolding c by (simp add: plain_samples) (simp add: js_def)
  note first = getBlock_static_or_fetched
    [where blockId = "js ''filter''" and staticBlocks = ?static and toAstarteBlock = id
       and c = ?c
       and server = "\<lambda>r :: unit request.
          Inr \<lparr>resp_data = \<lparr>name = js ''filter'', \<dots> = 3\<rparr>, resp_links = None\<rparr>",
     THEN conjunct1, rule_format, OF m]
  note third = getBlock_static_or_fetched
    [where blockId = "js ''custom''" and staticBlocks = ?static and toAstarteBlock = id
       and c = ?c
       and server = "\<lambda>r :: unit request.
          Inr \<lparr>resp_data = \<lparr>name = js ''custom'', \<dots> = 3\<rparr>, resp_links = None\<rparr>",
     THEN conjunct2, THEN conjunct2, rule_format, OF n, unfolded c]
  from first have "getBlock ?static id
      (\<lambda>r :: unit request. Inr \<lparr>resp_data = \<lparr>name = js ''filter'', \<dots> = 3\<rparr>, resp_links = None\<rparr>)
      ?c (js ''filter'') = ([], Inr \<lparr>name = js ''filter'', \<dots> = 1\<rparr>)"
    by auto
  moreover from third have "getBlock ?static id
      (\<lambda>r :: unit request. Inr \<lparr>resp_data = \<lparr>name = js ''custom'', \<dots> = 3\<rparr>, resp_links = None\<rparr>)
      ?c (js ''custom'') =
     ([\<lparr>req_method = GET,
        req_url = URL (js ''https://api/'')
                    (BasePath 1 [js ''v1'', js ''test'', js ''blocks'', js ''custom''])
                    NoQuery None,
        req_authorization = js ''Bearer t'',
        req_contentType = js ''application/json;charset=UTF-8'',
        req_body = None\<rparr>], Inr \<lparr>name = js ''custom'', \<dots> = 3\<rparr>)"
    by (auto simp add: js_def)
  ultimately show ?thesis by simp
qed

subsection \<open>Rooms that were not joined\<close>

text \<open>
  C5. On a room name that is not an own property of \<open>joinedChannels\<close>, each of
  \<open>listenForEvents\<close>, \<open>registerVolatileTrigger\<close> and \<open>leaveRoom\<close> returns a rejected
  promise and nothing else changes: the client instance (registry, socket, listeners)
  is the same, no operation on a socket or channel is logged, no push waits for a
  reply. When the name is not one of \<open>Object.prototype\<close> the promise is rejected with the
  precondition error of the method. When it is one (\<open>constructor\<close>, \<open>toString\<close>, ...)
  the guard is passed with the inherited member and the promise is rejected with the
  \<open>TypeError\<close> of the missing method, not with the precondition error.
\<close>

theorem not_joined_room_rejected:
  "(joinedChannels (this w) roomName = None \<and> roomName \<notin> set objectPrototypeNames \<longrightarrow>
     listenForEvents roomName eventHandler w =
       (promises w,
        w\<lparr>promises := Suc (promises w),
          settled := (settled w)(promises w \<mapsto>
            Rejected (Error (js ''Can't listen for room events before joining it first'')))\<rparr>) \<and>
     registerVolatileTrigger roomName triggerPayload w =
       (promises w,
        w\<lparr>promises := Suc (promises w),
          settled := (settled w)(promises w \<mapsto>
            Rejected (Error (js ''Room not joined, couldn't register trigger'')))\<rparr>) \<and>
     leaveRoom roomName w =
       (promises w,
        w\<lparr>promises := Suc (promises w),
          settled := (settled w)(promises w \<mapsto>
            Rejected (Error (js ''Can't leave a room without joining it first'')))\<rparr>)) \<and>
   (joinedChannels (this w) roomName = None \<and> roomName \<in> set objectPrototypeNames \<longrightarrow>
     listenForEvents roomName eventHandler w =
       (promises w,
        w\<lparr>promises := Suc (promises w),
          settled := (settled w)(promises w \<mapsto> Rejected TypeError)\<rparr>) \<and>
     registerVolatileTrigger roomName triggerPayload w =
       (promises w,
        w\<lparr>promises := Suc (promises w),
          settled := (settled w)(promises w \<mapsto> Rejected TypeError)\<rparr>) \<and>
     leaveRoom roomName w =
       (promises w,
        w\<lparr>promises := Suc (promises w),
          settled := (settled w)(promises w \<mapsto> Rejected TypeError)\<rparr>))"
  by (simp add: listenForEvents_def registerVolatileTrigger_def leaveRoom_def newPromise_def
      settle_def getProperty_def)

theorem not_joined_room_rejected_witness:
  "listenForEvents (js ''room'') 7 (newWorld (newClient (js ''https://api/'') (js ''test'') (js ''t''))) =
     (0, (newWorld (newClient (js ''https://api/'') (js ''test'') (js ''t'')))
           \<lparr>promises := 1,
            settled := [0 \<mapsto> Rejected (Error
               (js ''Can't listen for room events before joining it first''))]\<rparr>) \<and>
   registerVolatileTrigger (js ''room'') 9
       (newWorld (newClient (js ''https://api/'') (js ''test'') (js ''t''))) =
     (0, (newWorld (newClient (js ''https://api/'') (js ''test'') (js ''t'')))
           \<lparr>promises := 1,
            settled := [0 \<mapsto> Rejected (Error
               (js ''Room not joined, couldn't register trigger''))]\<rparr>) \<and>
   leaveRoom (js ''room'') (newWorld (newClient (js ''https://api/'') (js ''test'') (js ''t''))) =
     (0, (newWorld (newClient (js ''https://api/'') (js ''test'') (js ''t'')))
           \<lparr>promises := 1,
            settled := [0 \<mapsto> Rejected (Error
               (js ''Can't leave a room without joining it first''))]\<rparr>) \<and>
   listenForEvents (js ''constructor'') 7
       (newWorld (newClient (js ''https://api/'') (js ''test'') (js ''t''))) =
     (0, (newWorld (newClient (js ''https://api/'') (js ''test'') (js ''t'')))
           \<lparr>promises := 1, settled := [0 \<mapsto> Rejected TypeError]\<rparr>) \<and>
   registerVolatileTrigger (js ''constructor'') 9
       (newWorld (newClient (js ''https://api/'') (js ''test'') (js ''t''))) =
     (0, (newWorld (newClient (js ''https://api/'') (js ''test'') (js ''t'')))
           \<lparr>promises := 1, settled := [0 \<mapsto> Rejected TypeError]\<rparr>) \<and>
   leaveRoom (js ''constructor'')
       (newWorld (newClient (js ''https://api/'') (js ''test'') (js ''t''))) =
     (0, (newWorld (newClient (js ''https://api/'') (js ''test'') (js ''t'')))
           \<lparr>promises := 1, settled := [0 \<mapsto> Rejected TypeError]\<rparr>)"
proof -
  define w0 where "w0 = newWorld (newClient (js ''https://api/'') (js ''test'') (js ''t''))"
  have r: "joinedChannels (this w0) (js ''room'') = None \<and>
      js ''room'' \<notin> set objectPrototypeNames"
    unfolding w0_def by (simp add: newWorld_def newClient_def objectPrototypeNames_def js_def)
  have k: "joinedChannels (this w0) (js ''constructor'') = None \<and>
      js ''constructor'' \<in> set objectPrototypeNames"
    unfolding w0_def by (simp add: newWorld_def newClient_def objectPrototypeNames_def)
  have p: "promises w0 = 0" "settled w0 = Map.empty"
    unfolding w0_def by (simp_all add: newWorld_def)
  note ordinary = not_joined_room_rejected
    [where w = w0 and roomName = "js ''room''" and eventHandler = 7 and triggerPayload = 9,
      THEN conjunct1, rule_format, OF r, unfolded p]
  note inherited = not_joined_room_rejected
    [where w = w0 and roomName = "js ''constructor''" and eventHandler = 7
       and triggerPayload = 9,
      THEN conjunct2, rule_format, OF k, unfolded p]
  show ?thesis
    using ordinary inherited unfolding w0_def by simp
qed

subsection \<open>Listing blocks\<close>

lemma find_append_first:
  "find P (xs @ ys) = (case find P xs of Some x \<Rightarrow> Some x | None \<Rightarrow> find P ys)"
  by (induction xs) simp_all

lemma find_baseUniq:
  "n \<notin> set seen \<Longrightarrow> find (\<lambda>b. f b = n) (baseUniq f seen xs) = find (\<lambda>b. f b = n) xs"
proof (induction xs arbitrary: seen)
  case Nil
  then show ?case by simp
next
  case (Cons x xs)
  show ?case
  proof (cases "f x \<in> set seen")
    case True
    with Cons.prems have "f x \<noteq> n" by auto
    with True Cons.IH [OF Cons.prems] show ?thesis by simp
  next
    case False
    show ?thesis
    proof (cases "f x = n")
      case True
      with False show ?thesis by simp
    next
      case neq: False
      with Cons.prems have "n \<notin> set (seen @ [f x])" by auto
      from Cons.IH [OF this] False neq show ?thesis by simp
    qed
  qed
qed

lemma keys_baseUniq: "f ` set (baseUniq f seen xs) = f ` set xs - set seen"
  by (induction xs arbitrary: seen) auto

lemma distinct_baseUniq: "distinct (map f (baseUniq f seen xs))"
proof (induction xs arbitrary: seen)
  case Nil
  then show ?case by simp
next
  case (Cons x xs)
  have "f x \<notin> f ` set (baseUniq f (seen @ [f x]) xs)"
    by (simp add: keys_baseUniq)
  with Cons.IH show ?case by simp
qed

text \<open>
  C1. What \<open>getBlocks\<close> returns on a response: the transforms of a list that holds
  every name of the fetched and of the built-in blocks once, and whose entry for a name
  is the first fetched block of that name when there is one, the first built-in block
  of that name otherwise. \<open>_.uniqBy\<close> keeps the first element of a key, and the
  fetched blocks come first in \<open>fetchedBlocks.concat(staticBlocks)\<close>: on a name that
  both lists hold, the entry is the server's block, not the built-in one.
\<close>

theorem getBlocks_fetched_block_first:
  assumes "server (get_request c (apiConfig_blocks c (this_config c))) = Inr response"
  shows "\<exists>allBlocks.
     getBlocks staticBlocks toAstarteBlock server c =
       ([get_request c (apiConfig_blocks c (this_config c))],
        Inr (map toAstarteBlock allBlocks)) \<and>
     distinct (map name allBlocks) \<and>
     set (map name allBlocks) = set (map name (resp_data response)) \<union> set (map name staticBlocks) \<and>
     (\<forall>n. find (\<lambda>b. name b = n) allBlocks =
        (case find (\<lambda>b. name b = n) (resp_data response) of
           Some b \<Rightarrow> Some b
         | None \<Rightarrow> find (\<lambda>b. name b = n) staticBlocks))"
proof -
  let ?all = "uniqBy (resp_data response @ staticBlocks) name"
  have "getBlocks staticBlocks toAstarteBlock server c =
       ([get_request c (apiConfig_blocks c (this_config c))], Inr (map toAstarteBlock ?all))"
    using assms by (simp add: getBlocks_def await_request_def Let_def)
  moreover have "distinct (map name ?all)"
    by (simp add: uniqBy_def distinct_baseUniq)
  moreover have "set (map name ?all) = set (map name (resp_data response)) \<union> set (map name staticBlocks)"
    using keys_baseUniq [of name "[]" "resp_data response @ staticBlocks"]
    by (simp add: uniqBy_def image_Un)
  moreover have "\<forall>n. find (\<lambda>b. name b = n) ?all =
        (case find (\<lambda>b. name b = n) (resp_data response) of
           Some b \<Rightarrow> Some b
         | None \<Rightarrow> find (\<lambda>b. name b = n) staticBlocks)"
    by (simp add: uniqBy_def find_baseUniq find_append_first)
  ultimately show ?thesis by blast
qed

theorem getBlocks_fetched_block_first_witness:
  "getBlocks [\<lparr>name = js ''filter'', \<dots> = (1::nat)\<rparr>] id
      (\<lambda>r :: unit request.
         Inr \<lparr>resp_data = [\<lparr>name = js ''filter'', \<dots> = 2\<rparr>], resp_links = None\<rparr>)
      (newClient (js ''https://api/'') (js ''test'') (js ''t'')) =
     ([get_request (newClient (js ''https://api/'') (js ''test'') (js ''t''))
         (apiConfig_blocks (newClient (js ''https://api/'') (js ''test'') (js ''t''))
            (this_config (newClient (js ''https://api/'') (js ''test'') (js ''t''))))],
      Inr [\<lparr>name = js ''filter'', \<dots> = 2\<rparr>])"
proof -
  let ?c = "newClient (js ''https://api/'') (js ''test'') (js ''t'')"
  let ?server = "\<lambda>r :: unit request.
         Inr \<lparr>resp_data = [\<lparr>name = js ''filter'', \<dots> = (2::nat)\<rparr>], resp_links = None\<rparr>"
  let ?response = "\<lparr>resp_data = [\<lparr>name = js ''filter'', \<dots> = (2::nat)\<rparr>], resp_links = None\<rparr>"
  have "?server (get_request ?c (apiConfig_blocks ?c (this_config ?c))) = Inr ?response"
    by simp
  from getBlocks_fetched_block_first
    [where staticBlocks = "[\<lparr>name = js ''filter'', \<dots> = (1::nat)\<rparr>]" and toAstarteBlock = id, OF this]
  obtain allBlocks where a:
    "getBlocks [\<lparr>name = js ''filter'', \<dots> = (1::nat)\<rparr>] id ?server ?c =
       ([get_request ?c (apiConfig_blocks ?c (this_config ?c))], Inr (map id allBlocks))"
    "distinct (map name allBlocks)"
    "set (map name allBlocks) =
       set (map name (resp_data ?response)) \<union> set (map name [\<lparr>name = js ''filter'', \<dots> = (1::nat)\<rparr>])"
    "\<forall>n. find (\<lambda>b. name b = n) allBlocks =
        (case find (\<lambda>b. name b = n) (resp_data ?response) of
           Some b \<Rightarrow> Some b
         | None \<Rightarrow> find (\<lambda>b. name b = n) [\<lparr>name = js ''filter'', \<dots> = (1::nat)\<rparr>])"
    by blast
  from a(3) have names: "set (map name allBlocks) = {js ''filter''}"
    by simp
  from a(4) have first: "find (\<lambda>b. name b = js ''filter'') allBlocks = Some \<lparr>name = js ''filter'', \<dots> = 2\<rparr>"
    by simp
  from distinct_card [OF a(2)] names have "length allBlocks = 1"
    by simp
  then obtain b where "allBlocks = [b]"
    by (cases allBlocks) auto
  with first have "allBlocks = [\<lparr>name = js ''filter'', \<dots> = 2\<rparr>]"
    by (auto split: if_splits)
  with a(1) show ?thesis by simp
qed

subsection \<open>Group names in URLs\<close>

lemma uriUnescaped_pathChar: "uriUnescaped c \<Longrightarrow> pathChar c"
  by (auto simp add: uriUnescaped_def js_def pathChar_def)

lemma hexDigit_pathChar: "n < 16 \<Longrightarrow> pathChar (hexDigit n)"
  by (simp add: pathChar_def unat_hexDigit)

lemma escapeOctet_pathChars:
  assumes "b < 256"
  shows "list_all pathChar (escapeOctet b)"
proof -
  have "b div 16 < 16" "b mod 16 < 16" using assms by simp_all
  then show ?thesis
    by (simp add: escapeOctet_def hexDigit_pathChar) (simp add: pathChar_def)
qed

lemma escapeOctets_pathChars:
  "\<forall>b \<in> set bs. b < 256 \<Longrightarrow> list_all pathChar (escapeOctets bs)"
  by (induction bs) (simp_all add: escapeOctets_def escapeOctet_pathChars)

lemma encode_pathChars:
  "encodeURIComponent s = Inr e \<Longrightarrow> list_all pathChar e"
proof (induction s arbitrary: e rule: encodeURIComponent.induct)
  case 1
  then show ?case by simp
next
  case (2 x xs)
  show ?case
  proof (cases "uriUnescaped x")
    case True
    with "2.prems" obtain r where r: "encodeURIComponent xs = Inr r" "e = x # r"
      by (auto split: sum.splits)
    with "2.IH"(1) [OF True r(1)] uriUnescaped_pathChar [OF True] show ?thesis
      by simp
  next
    case False
    show ?thesis
    proof (cases "isLeadingSurrogate x")
      case lead: True
      with False "2.prems" obtain d ds r where d: "xs = d # ds" "isTrailingSurrogate d"
        "encodeURIComponent ds = Inr r"
        "e = escapeOctets (utf8Encode (UTF16SurrogatePairToCodePoint x d)) @ r"
        by (auto split: sum.splits list.splits if_splits)
      have "\<forall>b \<in> set (utf8Encode (UTF16SurrogatePairToCodePoint x d)). b < 256"
        using utf8Encode_octets pair_code_point_range(2) [OF lead d(2)] by blast
      from escapeOctets_pathChars [OF this] "2.IH"(2) [OF False lead d(1) d(2) d(3)] d(4)
      show ?thesis by simp
    next
      case nolead: False
      with False "2.prems" obtain r where r: "\<not> isTrailingSurrogate x"
        "encodeURIComponent xs = Inr r" "e = escapeOctets (utf8Encode (unat x)) @ r"
        by (auto split: sum.splits if_splits)
      have "unat x < 0x10000" using unsigned_less [of x] by simp
      then have "\<forall>b \<in> set (utf8Encode (unat x)). b < 256"
        using utf8Encode_octets [of "unat x"] by auto
      from escapeOctets_pathChars [OF this] "2.IH"(3) [OF False nolead r(1) r(2)] r(3)
      show ?thesis by simp
    qed
  qed
qed


lemma encode_plain:
  "encodeURIComponent s = Inr e \<Longrightarrow> c \<in> set e \<Longrightarrow> unat c < 0x80"
  using pathChars_visible [OF encode_pathChars, of s e] by (auto simp add: list_all_iff)

lemma encode_defined:
  "\<forall>c \<in> set s. unat c < 0x80 \<Longrightarrow> \<exists>e. encodeURIComponent s = Inr e"
proof (induction s)
  case Nil
  then show ?case by simp
next
  case (Cons x xs)
  then obtain r where r: "encodeURIComponent xs = Inr r" by auto
  from Cons.prems have "\<not> isLeadingSurrogate x" "\<not> isTrailingSurrogate x"
    by (simp_all add: isLeadingSurrogate_def isTrailingSurrogate_def)
  with r show ?case by simp
qed

lemma encode_twice_defined:
  "encodeURIComponent s = Inr once \<Longrightarrow> \<exists>twice. encodeURIComponent once = Inr twice"
  using encode_plain encode_defined by blast

lemma uriUnescaped_not_surrogate:
  "uriUnescaped c \<Longrightarrow> \<not> isLeadingSurrogate c \<and> \<not> isTrailingSurrogate c"
  using pathChar_visible [OF uriUnescaped_pathChar, of c]
  by (simp add: isLeadingSurrogate_def isTrailingSurrogate_def)

lemma encode_accepts_well_formed:
  "(\<exists>e. encodeURIComponent s = Inr e) \<longleftrightarrow> isWellFormed s"
proof (induction s rule: encodeURIComponent.induct)
  case 1
  then show ?case by simp
next
  case (2 c cs)
  show ?case
  proof (cases "uriUnescaped c")
    case True
    with "2.IH"(1) [OF True] uriUnescaped_not_surrogate [OF True] show ?thesis
      by (auto split: sum.splits)
  next
    case False
    show ?thesis
    proof (cases "isLeadingSurrogate c")
      case lead: True
      show ?thesis
      proof (cases cs)
        case Nil
        with False lead show ?thesis by simp
      next
        case (Cons d ds)
        show ?thesis
        proof (cases "isTrailingSurrogate d")
          case True
          with "2.IH"(2) [OF False lead Cons True] False lead Cons show ?thesis
            by (auto split: sum.splits)
        next
          case nt: False
          with False lead Cons show ?thesis by simp
        qed
      qed
    next
      case nolead: False
      show ?thesis
      proof (cases "isTrailingSurrogate c")
        case True
        with False nolead show ?thesis by simp
      next
        case nt: False
        with "2.IH"(3) [OF False nolead nt] False nolead show ?thesis
          by (auto split: sum.splits)
      qed
    qed
  qed
qed

lemma group_name_rejected_without_request:
  assumes "groupName = [] \<or> \<not> isWellFormed groupName"
  shows "fst (getDevicesInGroup server fromAstarteDeviceDTO c groupName details) = [] \<and>
     fst (addDeviceToGroup server' c groupName deviceId) = [] \<and>
     fst (removeDeviceFromGroup server'' c groupName deviceId) = []"
proof (cases "groupName = []")
  case True
  then show ?thesis
    by (simp add: getDevicesInGroup_def addDeviceToGroup_def removeDeviceFromGroup_def)
next
  case False
  with assms have "\<not> isWellFormed groupName" by simp
  then have "\<not> (\<exists>e. encodeURIComponent groupName = Inr e)"
    by (simp add: encode_accepts_well_formed)
  then obtain e where "encodeURIComponent groupName = Inl e"
    by (cases "encodeURIComponent groupName") auto
  then show ?thesis
    by (simp add: getDevicesInGroup_def addDeviceToGroup_def removeDeviceFromGroup_def)
qed

lemma decode_dot_segments:
  "decodeURIComponent (js ''.'') = Inr (js ''.'')"
  "decodeURIComponent (js ''%2e'') = Inr (js ''.'')"
  "decodeURIComponent (js ''%2E'') = Inr (js ''.'')"
  "decodeURIComponent (js ''..'') = Inr (js ''..'')"
  "decodeURIComponent (js ''.%2e'') = Inr (js ''..'')"
  "decodeURIComponent (js ''.%2E'') = Inr (js ''..'')"
  "decodeURIComponent (js ''%2e.'') = Inr (js ''..'')"
  "decodeURIComponent (js ''%2E.'') = Inr (js ''..'')"
  "decodeURIComponent (js ''%2e%2e'') = Inr (js ''..'')"
  "decodeURIComponent (js ''%2e%2E'') = Inr (js ''..'')"
  "decodeURIComponent (js ''%2E%2e'') = Inr (js ''..'')"
  "decodeURIComponent (js ''%2E%2E'') = Inr (js ''..'')"
  by (simp_all add: js_def parseHexOctet_def hexValue_def leadingOnes_def)

lemma encode_dots:
  "encodeURIComponent (js ''.'') = Inr (js ''.'')"
  "encodeURIComponent (js ''..'') = Inr (js ''..'')"
  by (simp_all add: js_def uriUnescaped_def)

lemma dot_strings_differ:
  "js ''.'' \<noteq> js ''%2e''" "js ''.'' \<noteq> js ''%2E''"
  "js ''..'' \<noteq> js ''.%2e''" "js ''..'' \<noteq> js ''.%2E''" "js ''..'' \<noteq> js ''%2e.''"
  "js ''..'' \<noteq> js ''%2E.''" "js ''..'' \<noteq> js ''%2e%2e''" "js ''..'' \<noteq> js ''%2e%2E''"
  "js ''..'' \<noteq> js ''%2E%2e''" "js ''..'' \<noteq> js ''%2E%2E''" "js ''.'' \<noteq> js ''..''"
  by (simp_all add: js_def)

lemma encoded_single_dot:
  assumes "encodeURIComponent s = Inr e"
  shows "isSingleDotSegment e \<longleftrightarrow> s = js ''.''"
proof
  assume "isSingleDotSegment e"
  then consider "e = js ''.''" | "e = js ''%2e''" | "e = js ''%2E''"
    by (auto simp add: isSingleDotSegment_def)
  then have "decodeURIComponent e = Inr (js ''.'')"
    by cases (simp_all add: decode_dot_segments)
  with decode_encode [OF assms] show "s = js ''.''" by simp
next
  assume "s = js ''.''"
  with assms encode_dots(1) have "e = js ''.''" by simp
  then show "isSingleDotSegment e" by (simp add: isSingleDotSegment_def)
qed

lemma encoded_double_dot:
  assumes "encodeURIComponent s = Inr e"
  shows "isDoubleDotSegment e \<longleftrightarrow> s = js ''..''"
proof
  assume "isDoubleDotSegment e"
  then have "e \<in> set [js ''..'', js ''.%2e'', js ''.%2E'', js ''%2e.'', js ''%2E.'',
                   js ''%2e%2e'', js ''%2e%2E'', js ''%2E%2e'', js ''%2E%2E'']"
    by (simp add: isDoubleDotSegment_def)
  then have "decodeURIComponent e = Inr (js ''..'')"
    by (auto simp add: decode_dot_segments)
  with decode_encode [OF assms] show "s = js ''..''" by simp
next
  assume "s = js ''..''"
  with assms encode_dots(2) have "e = js ''..''" by simp
  then show "isDoubleDotSegment e" by (simp add: isDoubleDotSegment_def)
qed

lemma twice_single_dot:
  assumes "encodeURIComponent s = Inr once" and "encodeURIComponent once = Inr twice"
  shows "isSingleDotSegment twice \<longleftrightarrow> s = js ''.''"
proof -
  have "once = js ''.'' \<longleftrightarrow> s = js ''.''"
  proof
    assume "once = js ''.''"
    then have "isSingleDotSegment once" by (simp add: isSingleDotSegment_def)
    then show "s = js ''.''" using encoded_single_dot [OF assms(1)] by simp
  next
    assume "s = js ''.''"
    with assms(1) encode_dots(1) show "once = js ''.''" by simp
  qed
  then show ?thesis using encoded_single_dot [OF assms(2)] by simp
qed

lemma twice_double_dot:
  assumes "encodeURIComponent s = Inr once" and "encodeURIComponent once = Inr twice"
  shows "isDoubleDotSegment twice \<longleftrightarrow> s = js ''..''"
proof -
  have "once = js ''..'' \<longleftrightarrow> s = js ''..''"
  proof
    assume "once = js ''..''"
    then have "isDoubleDotSegment once" by (simp add: isDoubleDotSegment_def)
    then show "s = js ''..''" using encoded_double_dot [OF assms(1)] by simp
  next
    assume "s = js ''..''"
    with assms(1) encode_dots(2) show "once = js ''..''" by simp
  qed
  then show ?thesis using encoded_double_dot [OF assms(2)] by simp
qed

lemma group_segment:
  assumes "encodeURIComponent groupName = Inr once" and "encodeURIComponent once = Inr twice"
  shows "endSegment (BasePath 1 [js ''v1'', r, js ''groups'']) twice True =
     BasePath 1
       (if groupName = js ''..'' then [js ''v1'', r]
        else if groupName = js ''.'' then [js ''v1'', r, js ''groups'']
        else [js ''v1'', r, js ''groups'', twice])"
  using twice_single_dot [OF assms] twice_double_dot [OF assms] dot_strings_differ(11)
  by (simp add: endSegment_def)

lemma encode_sample:
  "encodeURIComponent [0x61, 0x25, 0x2F, 0x27, 0x22, 0xE9] = Inr (js ''a%25%2F'%22%C3%A9'')"
  by (simp add: uriUnescaped_def js_def isLeadingSurrogate_def isTrailingSurrogate_def
      utf8Encode_def escapeOctets_def escapeOctet_def hexDigit_def)

lemma encode_sample_twice:
  "encodeURIComponent (js ''a%25%2F'%22%C3%A9'') = Inr (js ''a%2525%252F'%2522%25C3%25A9'')"
  by (simp add: uriUnescaped_def js_def isLeadingSurrogate_def isTrailingSurrogate_def
      utf8Encode_def escapeOctets_def escapeOctet_def hexDigit_def)


text \<open>
  C4. For a group name that \<open>encodeURIComponent\<close> accepts (exactly the well-formed
  strings; on an unpaired surrogate it throws, and on the empty name the methods throw,
  before any request) and that is not empty, the three group methods put the encoding
  of the encoding of the name between \<open>/groups/\<close> and \<open>/devices\<close> and hand the result to
  \<open>new URL\<close>; decoding the double encoding gives the single encoding, and decoding again
  gives the name. For every name but \<open>.\<close> and \<open>..\<close> the URL requested has that segment
  after \<open>groups\<close>. The encoding leaves \<open>.\<close> and \<open>..\<close> as they are and the URL parser reads
  them as dot segments: for \<open>.\<close> the URL requested is \<open>v1/<realm>/groups/devices\<close>, for
  \<open>..\<close> it is \<open>v1/<realm>/devices\<close>, with no segment of the group in it.
\<close>

theorem group_name_segment_resolved:
  assumes "encodeURIComponent groupName = Inr once" and "groupName \<noteq> []"
    and "plainSegment (realm c)"
  shows "\<exists>twice segments.
     encodeURIComponent once = Inr twice \<and>
     decodeURIComponent twice = Inr once \<and>
     decodeURIComponent once = Inr groupName \<and>
     segments =
       (if groupName = js ''..'' then [js ''v1'', realm c, js ''devices'']
        else if groupName = js ''.'' then [js ''v1'', realm c, js ''groups'', js ''devices'']
        else [js ''v1'', realm c, js ''groups'', twice, js ''devices'']) \<and>
     fst (getDevicesInGroup server fromAstarteDeviceDTO c groupName details) =
       [\<lparr>req_method = GET,
         req_url = URL (appEngineApiUrl c) (BasePath 1 segments)
                     (if details then SearchParams [(js ''details'', js ''true'')] else NoQuery)
                     None,
         req_authorization = js ''Bearer '' @ token c,
         req_contentType = js ''application/json;charset=UTF-8'',
         req_body = None\<rparr>] \<and>
     (deviceId \<noteq> [] \<longrightarrow>
        fst (addDeviceToGroup server' c groupName deviceId) =
          [\<lparr>req_method = POST,
            req_url = URL (appEngineApiUrl c) (BasePath 1 segments) NoQuery None,
            req_authorization = js ''Bearer '' @ token c,
            req_contentType = js ''application/json;charset=UTF-8'',
            req_body = Some \<lparr>device_id = deviceId\<rparr>\<rparr>]) \<and>
     (deviceId \<noteq> [] \<and> plainSegment deviceId \<longrightarrow>
        fst (removeDeviceFromGroup server'' c groupName deviceId) =
          [\<lparr>req_method = DELETE,
            req_url = URL (appEngineApiUrl c) (BasePath 1 (segments @ [deviceId])) NoQuery None,
            req_authorization = js ''Bearer '' @ token c,
            req_contentType = js ''application/json;charset=UTF-8'',
            req_body = None\<rparr>])"
proof -
  from encode_twice_defined [OF assms(1)] obtain twice
    where twice: "encodeURIComponent once = Inr twice" by blast
  define segments where "segments =
       (if groupName = js ''..'' then [js ''v1'', realm c, js ''devices'']
        else if groupName = js ''.'' then [js ''v1'', realm c, js ''groups'', js ''devices'']
        else [js ''v1'', realm c, js ''groups'', twice, js ''devices''])"
  have chars: "list_all pathChar twice" using twice by (rule encode_pathChars)
  have list: "relativeURL (appEngineApiUrl c)
      (js ''v1/'' @ realm c @ js ''/groups/'' @ twice @ js ''/devices'') =
      URL (appEngineApiUrl c) (BasePath 1 segments) NoQuery None"
    unfolding groupDevices_resolved [OF assms(3) chars] group_segment [OF assms(1) twice]
      segments_def
    by simp
  have member: "relativeURL (appEngineApiUrl c)
      (js ''v1/'' @ realm c @ js ''/groups/'' @ twice @ js ''/devices/'' @ deviceId) =
      URL (appEngineApiUrl c) (BasePath 1 (segments @ [deviceId])) NoQuery None"
    if "plainSegment deviceId"
    unfolding deviceInGroup_resolved [OF assms(3) chars that] group_segment [OF assms(1) twice]
      segments_def
    by simp
  have "decodeURIComponent twice = Inr once"
    using twice by (rule decode_encode)
  moreover have "decodeURIComponent once = Inr groupName"
    using assms(1) by (rule decode_encode)
  moreover have "fst (getDevicesInGroup server fromAstarteDeviceDTO c groupName details) =
       [\<lparr>req_method = GET,
         req_url = URL (appEngineApiUrl c) (BasePath 1 segments)
                     (if details then SearchParams [(js ''details'', js ''true'')] else NoQuery)
                     None,
         req_authorization = js ''Bearer '' @ token c,
         req_contentType = js ''application/json;charset=UTF-8'',
         req_body = None\<rparr>]"
    using assms(1,2) twice
    by (simp add: getDevicesInGroup_def await_request_def groupDevices_endpoint get_request_def
        bearer_def list Let_def)
  moreover have "deviceId \<noteq> [] \<longrightarrow>
        fst (addDeviceToGroup server' c groupName deviceId) =
          [\<lparr>req_method = POST,
            req_url = URL (appEngineApiUrl c) (BasePath 1 segments) NoQuery None,
            req_authorization = js ''Bearer '' @ token c,
            req_contentType = js ''application/json;charset=UTF-8'',
            req_body = Some \<lparr>device_id = deviceId\<rparr>\<rparr>]"
    using assms(1,2) twice
    by (simp add: addDeviceToGroup_def await_request_def groupDevices_endpoint post_request_def
        bearer_def list)
  moreover have "deviceId \<noteq> [] \<and> plainSegment deviceId \<longrightarrow>
        fst (removeDeviceFromGroup server'' c groupName deviceId) =
          [\<lparr>req_method = DELETE,
            req_url = URL (appEngineApiUrl c) (BasePath 1 (segments @ [deviceId])) NoQuery None,
            req_authorization = js ''Bearer '' @ token c,
            req_contentType = js ''application/json;charset=UTF-8'',
            req_body = None\<rparr>]"
    using assms(1,2) twice
    by (simp add: removeDeviceFromGroup_def await_request_def deviceInGroup_endpoint
        delete_request_def bearer_def member)
  ultimately show ?thesis using twice segments_def by blast
qed

theorem group_name_segment_resolved_witness:
  "encodeURIComponent [0x61, 0x25, 0x2F, 0x27, 0x22, 0xE9] = Inr (js ''a%25%2F'%22%C3%A9'') \<and>
   encodeURIComponent (js ''a%25%2F'%22%C3%A9'') = Inr (js ''a%2525%252F'%2522%25C3%25A9'') \<and>
   decodeURIComponent (js ''a%2525%252F'%2522%25C3%25A9'') = Inr (js ''a%25%2F'%22%C3%A9'') \<and>
   decodeURIComponent (js ''a%25%2F'%22%C3%A9'') = Inr [0x61, 0x25, 0x2F, 0x27, 0x22, 0xE9] \<and>
   fst (getDevicesInGroup (\<lambda>r :: unit request. Inr \<lparr>resp_data = [], resp_links = None\<rparr>)
          (id :: nat \<Rightarrow> nat)
          (newClient (js ''https://api/'') (js ''test'') (js ''t''))
          [0x61, 0x25, 0x2F, 0x27, 0x22, 0xE9] True) =
     [\<lparr>req_method = GET,
       req_url = URL (js ''https://api/'')
                   (BasePath 1 [js ''v1'', js ''test'', js ''groups'',
                      js ''a%2525%252F'%2522%25C3%25A9'', js ''devices''])
                   (SearchParams [(js ''details'', js ''true'')]) None,
       req_authorization = js ''Bearer t'',
       req_contentType = js ''application/json;charset=UTF-8'',
       req_body = None\<rparr>] \<and>
   fst (addDeviceToGroup (\<lambda>r. Inr \<lparr>resp_data = (), resp_links = None\<rparr>)
          (newClient (js ''https://api/'') (js ''test'') (js ''t''))
          [0x61, 0x25, 0x2F, 0x27, 0x22, 0xE9] (js ''dev'')) =
     [\<lparr>req_method = POST,
       req_url = URL (js ''https://api/'')
                   (BasePath 1 [js ''v1'', js ''test'', js ''groups'',
                      js ''a%2525%252F'%2522%25C3%25A9'', js ''devices''])
                   NoQuery None,
       req_authorization = js ''Bearer t'',
       req_contentType = js ''application/json;charset=UTF-8'',
       req_body = Some \<lparr>device_id = js ''dev''\<rparr>\<rparr>] \<and>
   fst (removeDeviceFromGroup (\<lambda>r :: unit request. Inr \<lparr>resp_data = (), resp_links = None\<rparr>)
          (newClient (js ''https://api/'') (js ''test'') (js ''t''))
          [0x61, 0x25, 0x2F, 0x27, 0x22, 0xE9] (js ''dev'')) =
     [\<lparr>req_method = DELETE,
       req_url = URL (js ''https://api/'')
                   (BasePath 1 [js ''v1'', js ''test'', js ''groups'',
                      js ''a%2525%252F'%2522%25C3%25A9'', js ''devices'', js ''dev''])
                   NoQuery None,
       req_authorization = js ''Bearer t'',
       req_contentType = js ''application/json;charset=UTF-8'',
       req_body = None\<rparr>] \<and>
   fst (getDevicesInGroup (\<lambda>r :: unit request. Inr \<lparr>resp_data = [], resp_links = None\<rparr>)
          (id :: nat \<Rightarrow> nat)
          (newClient (js ''https://api/'') (js ''test'') (js ''t'')) (js ''..'') False) =
     [\<lparr>req_method = GET,
       req_url = URL (js ''https://api/'') (BasePath 1 [js ''v1'', js ''test'', js ''devices''])
                   NoQuery None,
       req_authorization = js ''Bearer t'',
       req_contentType = js ''application/json;charset=UTF-8'',
       req_body = None\<rparr>] \<and>
   fst (addDeviceToGroup (\<lambda>r. Inr \<lparr>resp_data = (), resp_links = None\<rparr>)
          (newClient (js ''https://api/'') (js ''test'') (js ''t'')) (js ''..'') (js ''dev'')) =
     [\<lparr>req_method = POST,
       req_url = URL (js ''https://api/'') (BasePath 1 [js ''v1'', js ''test'', js ''devices''])
                   NoQuery None,
       req_authorization = js ''Bearer t'',
       req_contentType = js ''application/json;charset=UTF-8'',
       req_body = Some \<lparr>device_id = js ''dev''\<rparr>\<rparr>] \<and>
   fst (removeDeviceFromGroup (\<lambda>r :: unit request. Inr \<lparr>resp_data = (), resp_links = None\<rparr>)
          (newClient (js ''https://api/'') (js ''test'') (js ''t'')) (js ''..'') (js ''dev'')) =
     [\<lparr>req_method = DELETE,
       req_url = URL (js ''https://api/'')
                   (BasePath 1 [js ''v1'', js ''test'', js ''devices'', js ''dev''])
                   NoQuery None,
       req_authorization = js ''Bearer t'',
       req_contentType = js ''application/json;charset=UTF-8'',
       req_body = None\<rparr>] \<and>
   fst (getDevicesInGroup (\<lambda>r :: unit request. Inr \<lparr>resp_data = [], resp_links = None\<rparr>)
          (id :: nat \<Rightarrow> nat)
          (newClient (js ''https://api/'') (js ''test'') (js ''t'')) (js ''.'') False) =
     [\<lparr>req_method = GET,
       req_url = URL (js ''https://api/'')
                   (BasePath 1 [js ''v1'', js ''test'', js ''groups'', js ''devices''])
                   NoQuery None,
       req_authorization = js ''Bearer t'',
       req_contentType = js ''application/json;charset=UTF-8'',
       req_body = None\<rparr>]"
proof -
  let ?g = "[0x61, 0x25, 0x2F, 0x27, 0x22, 0xE9] :: jsstring"
  define c where "c = newClient (js ''https://api/'') (js ''test'') (js ''t'')"
  have r: "realm c = js ''test''" "appEngineApiUrl c = js ''https://api/''" "token c = js ''t''"
    unfolding c_def by (simp_all add: newClient_def)
  have p: "plainSegment (realm c)" unfolding r by (rule plain_samples(1))
  have dev: "js ''dev'' \<noteq> [] \<and> plainSegment (js ''dev'')" "js ''dev'' \<noteq> []"
    using plain_samples(3) by (simp_all add: js_def)
  have g: "?g \<noteq> []" "?g \<noteq> js ''..''" "?g \<noteq> js ''.''" by (simp_all add: js_def)
  have d: "js ''..'' \<noteq> []" "js ''.'' \<noteq> []" "js ''.'' \<noteq> js ''..''" by (simp_all add: js_def)
  have b: "js ''Bearer '' @ js ''t'' = js ''Bearer t''" by (simp add: js_def)
  from group_name_segment_resolved [OF encode_sample g(1) p,
      where server = "\<lambda>r :: unit request. Inr \<lparr>resp_data = [], resp_links = None\<rparr>"
        and fromAstarteDeviceDTO = "id :: nat \<Rightarrow> nat" and details = True
        and deviceId = "js ''dev''"
        and server' = "\<lambda>r. Inr \<lparr>resp_data = (), resp_links = None\<rparr>"
        and server'' = "\<lambda>r :: unit request. Inr \<lparr>resp_data = (), resp_links = None\<rparr>"]
  obtain twice segments where t:
    "encodeURIComponent (js ''a%25%2F'%22%C3%A9'') = Inr twice"
    "decodeURIComponent twice = Inr (js ''a%25%2F'%22%C3%A9'')"
    "decodeURIComponent (js ''a%25%2F'%22%C3%A9'') = Inr ?g"
    "segments = [js ''v1'', js ''test'', js ''groups'', twice, js ''devices'']"
    "fst (getDevicesInGroup (\<lambda>r :: unit request. Inr \<lparr>resp_data = [], resp_links = None\<rparr>)
          (id :: nat \<Rightarrow> nat) c ?g True) =
       [\<lparr>req_method = GET,
         req_url = URL (js ''https://api/'') (BasePath 1 segments)
                     (SearchParams [(js ''details'', js ''true'')]) None,
         req_authorization = js ''Bearer t'',
         req_contentType = js ''application/json;charset=UTF-8'',
         req_body = None\<rparr>]"
    "fst (addDeviceToGroup (\<lambda>r. Inr \<lparr>resp_data = (), resp_links = None\<rparr>) c ?g (js ''dev'')) =
          [\<lparr>req_method = POST,
            req_url = URL (js ''https://api/'') (BasePath 1 segments) NoQuery None,
            req_authorization = js ''Bearer t'',
            req_contentType = js ''application/json;charset=UTF-8'',
            req_body = Some \<lparr>device_id = js ''dev''\<rparr>\<rparr>]"
    "fst (removeDeviceFromGroup
            (\<lambda>r :: unit request. Inr \<lparr>resp_data = (), resp_links = None\<rparr>) c ?g (js ''dev'')) =
          [\<lparr>req_method = DELETE,
            req_url = URL (js ''https://api/'') (BasePath 1 (segments @ [js ''dev''])) NoQuery None,
            req_authorization = js ''Bearer t'',
            req_contentType = js ''application/json;charset=UTF-8'',
            req_body = None\<rparr>]"
    unfolding r b using g(2,3) dev by auto
  from t(1) encode_sample_twice have tw: "twice = js ''a%2525%252F'%2522%25C3%25A9''"
    by simp
  from group_name_segment_resolved [OF encode_dots(2) d(1) p,
      where server = "\<lambda>r :: unit request. Inr \<lparr>resp_data = [], resp_links = None\<rparr>"
        and fromAstarteDeviceDTO = "id :: nat \<Rightarrow> nat" and details = False
        and deviceId = "js ''dev''"
        and server' = "\<lambda>r. Inr \<lparr>resp_data = (), resp_links = None\<rparr>"
        and server'' = "\<lambda>r :: unit request. Inr \<lparr>resp_data = (), resp_links = None\<rparr>"]
  have up:
    "fst (getDevicesInGroup (\<lambda>r :: unit request. Inr \<lparr>resp_data = [], resp_links = None\<rparr>)
          (id :: nat \<Rightarrow> nat) c (js ''..'') False) =
       [\<lparr>req_method = GET,
         req_url = URL (js ''https://api/'') (BasePath 1 [js ''v1'', js ''test'', js ''devices''])
                     NoQuery None,
         req_authorization = js ''Bearer t'',
         req_contentType = js ''application/json;charset=UTF-8'',
         req_body = None\<rparr>]"
    "fst (addDeviceToGroup (\<lambda>r. Inr \<lparr>resp_data = (), resp_links = None\<rparr>) c (js ''..'')
          (js ''dev'')) =
          [\<lparr>req_method = POST,
            req_url = URL (js ''https://api/'') (BasePath 1 [js ''v1'', js ''test'', js ''devices''])
                        NoQuery None,
            req_authorization = js ''Bearer t'',
            req_contentType = js ''application/json;charset=UTF-8'',
            req_body = Some \<lparr>device_id = js ''dev''\<rparr>\<rparr>]"
    "fst (removeDeviceFromGroup
            (\<lambda>r :: unit request. Inr \<lparr>resp_data = (), resp_links = None\<rparr>) c (js ''..'')
            (js ''dev'')) =
          [\<lparr>req_method = DELETE,
            req_url = URL (js ''https://api/'')
                        (BasePath 1 [js ''v1'', js ''test'', js ''devices'', js ''dev''])
                        NoQuery None,
            req_authorization = js ''Bearer t'',
            req_contentType = js ''application/json;charset=UTF-8'',
            req_body = None\<rparr>]"
    unfolding r b using dev by auto
  from group_name_segment_resolved [OF encode_dots(1) d(2) p,
      where server = "\<lambda>r :: unit request. Inr \<lparr>resp_data = [], resp_links = None\<rparr>"
        and fromAstarteDeviceDTO = "id :: nat \<Rightarrow> nat" and details = False
        and deviceId = "js ''dev''"
        and server' = "\<lambda>r. Inr \<lparr>resp_data = (), resp_links = None\<rparr>"
        and server'' = "\<lambda>r :: unit request. Inr \<lparr>resp_data = (), resp_links = None\<rparr>"]
  have here:
    "fst (getDevicesInGroup (\<lambda>r :: unit request. Inr \<lparr>resp_data = [], resp_links = None\<rparr>)
          (id :: nat \<Rightarrow> nat) c (js ''.'') False) =
       [\<lparr>req_method = GET,
         req_url = URL (js ''https://api/'')
                     (BasePath 1 [js ''v1'', js ''test'', js ''groups'', js ''devices''])
                     NoQuery None,
         req_authorization = js ''Bearer t'',
         req_contentType = js ''application/json;charset=UTF-8'',
         req_body = None\<rparr>]"
    unfolding r b using d(3) by auto
  show ?thesis
    using encode_sample encode_sample_twice t(2,3,5,6,7) up here
    unfolding tw t(4) c_def by simp
qed

subsection \<open>The next-page token\<close>

lemma first_link_units: "js ''/v1/test/devices?from_token=abc&limit=2'' = [47, 118, 49, 47, 116, 101, 115, 116, 47, 100, 101, 118, 105, 99, 101, 115, 63, 102, 114, 111, 109, 95, 116, 111, 107, 101, 110, 61, 97, 98, 99, 38, 108, 105, 109, 105, 116, 61, 50]"
  by (simp add: js_def)

lemma first_link_tuple0: "parseTuple [47, 118, 49, 47, 116, 101, 115, 116, 47, 100, 101, 118, 105, 99, 101, 115, 63, 102, 114, 111, 109, 95, 116, 111, 107, 101, 110, 61, 97, 98, 99] = ([47, 118, 49, 47, 116, 101, 115, 116, 47, 100, 101, 118, 105, 99, 101, 115, 63, 102, 114, 111, 109, 95, 116, 111, 107, 101, 110], [97, 98, 99])"
  by (simp add: parseTuple_def plusToSpace_def utf8DecodeWithoutBOM_def utf16Encode_def)

lemma first_link_tuple1: "parseTuple [108, 105, 109, 105, 116, 61, 50] = ([108, 105, 109, 105, 116], [50])"
  by (simp add: parseTuple_def plusToSpace_def utf8DecodeWithoutBOM_def utf16Encode_def)

lemma first_link_params:
  "URLSearchParams (Some (js ''/v1/test/devices?from_token=abc&limit=2'')) =
     [(js ''/v1/test/devices?from_token'', js ''abc''), (js ''limit'', js ''2'')]"
  unfolding URLSearchParams_def first_link_units
  by (simp add: isLeadingSurrogate_def isTrailingSurrogate_def utf8Encode_def
      first_link_tuple0 first_link_tuple1 js_def)

lemma later_link_units: "js ''/v1/test/devices?limit=2&from_token=abc'' = [47, 118, 49, 47, 116, 101, 115, 116, 47, 100, 101, 118, 105, 99, 101, 115, 63, 108, 105, 109, 105, 116, 61, 50, 38, 102, 114, 111, 109, 95, 116, 111, 107, 101, 110, 61, 97, 98, 99]"
  by (simp add: js_def)

lemma later_link_tuple0: "parseTuple [47, 118, 49, 47, 116, 101, 115, 116, 47, 100, 101, 118, 105, 99, 101, 115, 63, 108, 105, 109, 105, 116, 61, 50] = ([47, 118, 49, 47, 116, 101, 115, 116, 47, 100, 101, 118, 105, 99, 101, 115, 63, 108, 105, 109, 105, 116], [50])"
  by (simp add: parseTuple_def plusToSpace_def utf8DecodeWithoutBOM_def utf16Encode_def)

lemma later_link_tuple1: "parseTuple [102, 114, 111, 109, 95, 116, 111, 107, 101, 110, 61, 97, 98, 99] = ([102, 114, 111, 109, 95, 116, 111, 107, 101, 110], [97, 98, 99])"
  by (simp add: parseTuple_def plusToSpace_def utf8DecodeWithoutBOM_def utf16Encode_def)

lemma later_link_params:
  "URLSearchParams (Some (js ''/v1/test/devices?limit=2&from_token=abc'')) =
     [(js ''/v1/test/devices?limit'', js ''2''), (js ''from_token'', js ''abc'')]"
  unfolding URLSearchParams_def later_link_units
  by (simp add: isLeadingSurrogate_def isTrailingSurrogate_def utf8Encode_def
      later_link_tuple0 later_link_tuple1 js_def)

lemma first_link_get:
  "searchParams_get (URLSearchParams (Some (js ''/v1/test/devices?from_token=abc&limit=2'')))
     (js ''from_token'') = None"
  unfolding first_link_params by (simp add: searchParams_get_def js_def)

lemma later_link_get:
  "searchParams_get (URLSearchParams (Some (js ''/v1/test/devices?limit=2&from_token=abc'')))
     (js ''from_token'') = Some (js ''abc'')"
  unfolding later_link_params by (simp add: searchParams_get_def js_def)

lemma getDevices_no_next_link:
  assumes "server (get_request c (setSearch (apiConfig_devices c (this_config c)) q)) =
      Inr response"
    and "q = (if details then [(js ''details'', js ''true'')] else []) @
            (case limit of
               None \<Rightarrow> []
             | Some n \<Rightarrow> if number_truthy n then [(js ''limit'', number_toString n)] else []) @
            (case from of
               None \<Rightarrow> []
             | Some t \<Rightarrow> if t \<noteq> [] then [(js ''from_token'', t)] else [])"
    and "resp_links response = Some \<lparr>links_next = None\<rparr>"
  shows "snd (getDevices server fromAstarteDeviceDTO c details from limit) =
     Inr (map fromAstarteDeviceDTO (resp_data response), None)"
  using assms
  by (simp add: getDevices_def await_request_def Let_def URLSearchParams_def
      searchParams_get_def)

text \<open>
  C9. \<open>getDevices\<close> hands the whole next link to \<open>URLSearchParams\<close>, which reads
  everything up to the first \<open>=\<close> as the name of the first parameter. On the next link
  \<open>/v1/test/devices?from_token=abc&limit=2\<close> the first name is
  \<open>/v1/test/devices?from_token\<close>, no parameter is named \<open>from_token\<close>, and the
  returned token is \<open>null\<close>; the token is found when another parameter comes first.
\<close>

theorem getDevices_token_after_path_lost:
  "snd (getDevices
          (\<lambda>r. Inr \<lparr>resp_data = dtos,
                      resp_links =
                        Some \<lparr>links_next = Some (js ''/v1/test/devices?from_token=abc&limit=2'')\<rparr>\<rparr>)
          fromAstarteDeviceDTO c details from limit) =
     Inr (map fromAstarteDeviceDTO dtos, None) \<and>
   snd (getDevices
          (\<lambda>r. Inr \<lparr>resp_data = dtos,
                      resp_links =
                        Some \<lparr>links_next = Some (js ''/v1/test/devices?limit=2&from_token=abc'')\<rparr>\<rparr>)
          fromAstarteDeviceDTO c details from limit) =
     Inr (map fromAstarteDeviceDTO dtos, Some (js ''abc''))"
  by (simp add: getDevices_def await_request_def Let_def first_link_get later_link_get)

subsection \<open>Names in the registry\<close>

text \<open>
  In every world that a client just constructed reaches through calls of \<open>joinRoom\<close>
  and events of the loop, no own property of \<open>joinedChannels\<close> has the name of a member
  of \<open>Object.prototype\<close>: a join is pushed only after the read of the name gave
  \<open>undefined\<close>. So the assignment \<open>this.joinedChannels[roomName] = joinedChannel\<close> on
  the \<open>ok\<close> reply always defines or updates an own property.
\<close>

lemma joinRoom_for_names:
  assumes "\<forall>ref channel p n. awaiting w ref = Some (JoinPush channel p n) \<longrightarrow>
      n \<notin> set objectPrototypeNames"
  shows "(\<forall>ref channel p n. awaiting (joinRoom_for q roomName w) ref = Some (JoinPush channel p n) \<longrightarrow>
      n \<notin> set objectPrototypeNames) \<and>
    joinedChannels (this (joinRoom_for q roomName w)) = joinedChannels (this w)"
  using assms
  by (auto simp add: joinRoom_for_def openSocketConnection_def joinRoom_on_def joinChannel_def
      perform_def settle_def getProperty_def Let_def split: option.splits if_splits)


lemma deliver_names:
  assumes "\<forall>ref channel p n. awaiting w ref = Some (JoinPush channel p n) \<longrightarrow>
      n \<notin> set objectPrototypeNames"
    and "\<forall>n \<in> dom (joinedChannels (this w)). n \<notin> set objectPrototypeNames"
  shows "(\<forall>ref channel p n. awaiting (deliver e w) ref = Some (JoinPush channel p n) \<longrightarrow>
      n \<notin> set objectPrototypeNames) \<and>
    (\<forall>n \<in> dom (joinedChannels (this (deliver e w))). n \<notin> set objectPrototypeNames)"
proof (cases e)
  case (SocketOpened socket)
  show ?thesis
  proof (cases "connecting w socket")
    case None
    with SocketOpened assms show ?thesis by simp
  next
    case (Some a)
    obtain q roomName where a: "a = (q, roomName)" by (cases a)
    let ?w = "w\<lparr>this := (this w)\<lparr>phoenixSocket := Some socket\<rparr>,
                connecting := (connecting w)(socket := None)\<rparr>"
    have "\<forall>ref channel p n. awaiting ?w ref = Some (JoinPush channel p n) \<longrightarrow>
      n \<notin> set objectPrototypeNames"
      using assms(1) by simp
    from joinRoom_for_names [OF this, of q roomName]
    have "(\<forall>ref channel p n.
        awaiting (joinRoom_for q roomName ?w) ref = Some (JoinPush channel p n) \<longrightarrow>
        n \<notin> set objectPrototypeNames) \<and>
      joinedChannels (this (joinRoom_for q roomName ?w)) = joinedChannels (this w)"
      by simp
    moreover have "deliver e w = joinRoom_for q roomName ?w"
      using SocketOpened Some a by simp
    ultimately show ?thesis using assms(2) by simp
  qed
next
  case (Reply ref r)
  show ?thesis
  proof (cases "awaiting w ref")
    case None
    with Reply assms show ?thesis by simp
  next
    case (Some k)
    have rest: "\<forall>ref' channel p n.
        ((awaiting w)(ref := None)) ref' = Some (JoinPush channel p n) \<longrightarrow>
        n \<notin> set objectPrototypeNames"
      using assms(1) by simp
    show ?thesis
    proof (cases k)
      case (JoinPush channel p roomName)
      with Some assms(1) have n: "roomName \<notin> set objectPrototypeNames" by blast
      show ?thesis
      proof (cases r)
        case Ok
        have "awaiting (deliver e w) = (awaiting w)(ref := None)"
          "joinedChannels (this (deliver e w)) = (joinedChannels (this w))(roomName \<mapsto> channel)"
          using Reply Some JoinPush Ok by (simp_all add: settle_def)
        with rest n assms(2) show ?thesis by simp
      next
        case (Err x)
        have "awaiting (deliver e w) = (awaiting w)(ref := None)"
          "joinedChannels (this (deliver e w)) = joinedChannels (this w)"
          using Reply Some JoinPush Err by simp_all
        with rest assms(2) show ?thesis by simp
      qed
    next
      case (LeavePush channel p roomName)
      have "awaiting (deliver e w) = (awaiting w)(ref := None)"
        "dom (joinedChannels (this (deliver e w))) \<subseteq> dom (joinedChannels (this w))"
        using Reply Some LeavePush by (cases r; simp add: settle_def)+
      with rest assms(2) show ?thesis by (simp add: subset_iff)
    next
      case (WatchPush channel p)
      have "awaiting (deliver e w) = (awaiting w)(ref := None)"
        "joinedChannels (this (deliver e w)) = joinedChannels (this w)"
        using Reply Some WatchPush by (cases r; simp add: settle_def)+
      with rest assms(2) show ?thesis by simp
    qed
  qed
next
  case (SocketErrored socket)
  with assms show ?thesis by (simp add: dispatch_def perform_def)
next
  case (SocketClosed socket)
  with assms show ?thesis by (simp add: dispatch_def perform_def)
qed


lemma run_names:
  assumes "\<forall>ref channel p n. awaiting w ref = Some (JoinPush channel p n) \<longrightarrow>
      n \<notin> set objectPrototypeNames"
    and "\<forall>n \<in> dom (joinedChannels (this w)). n \<notin> set objectPrototypeNames"
  shows "(\<forall>ref channel p n. awaiting (run steps w) ref = Some (JoinPush channel p n) \<longrightarrow>
      n \<notin> set objectPrototypeNames) \<and>
    (\<forall>n \<in> dom (joinedChannels (this (run steps w))). n \<notin> set objectPrototypeNames)"
  using assms
proof (induction steps w rule: run.induct)
  case (1 w)
  then show ?case by simp
next
  case (2 roomName steps w)
  have "\<forall>ref channel p n.
      awaiting (w\<lparr>promises := Suc (promises w)\<rparr>) ref = Some (JoinPush channel p n) \<longrightarrow>
      n \<notin> set objectPrototypeNames"
    using "2.prems"(1) by simp
  from joinRoom_for_names [OF this, of "promises w" roomName] "2.prems"(2)
  have "(\<forall>ref channel p n. awaiting (snd (joinRoom roomName w)) ref = Some (JoinPush channel p n) \<longrightarrow>
      n \<notin> set objectPrototypeNames) \<and>
    (\<forall>n \<in> dom (joinedChannels (this (snd (joinRoom roomName w)))). n \<notin> set objectPrototypeNames)"
    by (simp add: joinRoom_def newPromise_def)
  then have "(\<forall>ref channel p n. awaiting (snd (joinRoom roomName w)) ref = Some (JoinPush channel p n) \<longrightarrow>
      n \<notin> set objectPrototypeNames)"
    "(\<forall>n \<in> dom (joinedChannels (this (snd (joinRoom roomName w)))). n \<notin> set objectPrototypeNames)"
    by blast+
  from "2.IH" [OF this] show ?case by simp
next
  case (3 e steps w)
  from deliver_names [OF "3.prems", of e]
  have "(\<forall>ref channel p n. awaiting (deliver e w) ref = Some (JoinPush channel p n) \<longrightarrow>
      n \<notin> set objectPrototypeNames)"
    "(\<forall>n \<in> dom (joinedChannels (this (deliver e w))). n \<notin> set objectPrototypeNames)"
    by blast+
  from "3.IH" [OF this] show ?case by simp
qed

lemma registry_has_no_inherited_name:
  "\<forall>n \<in> dom (joinedChannels (this (run steps (newWorld (newClient apiUrl r t))))).
     n \<notin> set objectPrototypeNames"
proof -
  let ?w = "newWorld (newClient apiUrl r t)"
  have "\<forall>ref channel p n. awaiting ?w ref = Some (JoinPush channel p n) \<longrightarrow>
      n \<notin> set objectPrototypeNames"
    "\<forall>n \<in> dom (joinedChannels (this ?w)). n \<notin> set objectPrototypeNames"
    by (simp_all add: newWorld_def newClient_def)
  from run_names [OF this] show ?thesis by simp
qed

subsection \<open>Joining a room\<close>

lemma getProperty_own:
  "object key = Some channel \<Longrightarrow> getProperty object key = Some (Channel channel)"
  by (simp add: getProperty_def)

lemma getProperty_undefined:
  "object key = None \<Longrightarrow> key \<notin> set objectPrototypeNames \<Longrightarrow> getProperty object key = None"
  by (simp add: getProperty_def)

lemma getProperty_inherited:
  "object key = None \<Longrightarrow> key \<in> set objectPrototypeNames \<Longrightarrow>
   getProperty object key = Some (Inherited key)"
  by (simp add: getProperty_def)

lemma joinRoom_without_socket:
  assumes "phoenixSocket (this w) = None"
  shows "joinRoom roomName w =
     (promises w,
      w\<lparr>sockets := Suc (sockets w),
        promises := Suc (promises w),
        connecting := (connecting w)(sockets w \<mapsto> (promises w, roomName)),
        trace := trace w @
          [NewSocket (sockets w)
             (WebSocket (apiConfig_phoenixSocket (this w) (this_config (this w))))
             (realm (this w)) (token (this w)),
           Connect (sockets w)]\<rparr>)"
  using assms
  by (simp add: joinRoom_def newPromise_def joinRoom_for_def openSocketConnection_def
      perform_def Let_def)

lemma joinRoom_for_not_joined:
  assumes "phoenixSocket (this w) = Some socket" and "joinedChannels (this w) roomName = None"
    and "roomName \<notin> set objectPrototypeNames"
  shows "joinRoom_for p roomName w =
     w\<lparr>channels := Suc (channels w),
       pushes := Suc (pushes w),
       awaiting := (awaiting w)(pushes w \<mapsto> JoinPush (channels w) p roomName),
       trace := trace w @
         [NewChannel (channels w) socket (js ''rooms:'' @ realm (this w) @ js '':'' @ roomName),
          Join (channels w) (pushes w)]\<rparr>"
  using assms
  by (simp add: joinRoom_for_def joinRoom_on_def joinChannel_def perform_def Let_def
      getProperty_undefined)

lemma joinRoom_for_joined:
  assumes "phoenixSocket (this w) = Some socket"
    and "joinedChannels (this w) roomName = Some channel"
  shows "joinRoom_for p roomName w =
     w\<lparr>settled := (settled w)(p \<mapsto> Resolved (Channel channel))\<rparr>"
  using assms by (simp add: joinRoom_for_def joinRoom_on_def settle_def getProperty_own)

lemma joinRoom_not_joined:
  assumes "phoenixSocket (this w) = Some socket" and "joinedChannels (this w) roomName = None"
    and "roomName \<notin> set objectPrototypeNames"
  shows "joinRoom roomName w =
     (promises w,
      w\<lparr>channels := Suc (channels w),
        pushes := Suc (pushes w),
        promises := Suc (promises w),
        awaiting := (awaiting w)(pushes w \<mapsto> JoinPush (channels w) (promises w) roomName),
        trace := trace w @
          [NewChannel (channels w) socket (js ''rooms:'' @ realm (this w) @ js '':'' @ roomName),
           Join (channels w) (pushes w)]\<rparr>)"
  using assms
  by (simp add: joinRoom_def newPromise_def joinRoom_for_not_joined)

lemma joinRoom_joined:
  assumes "phoenixSocket (this w) = Some socket"
    and "joinedChannels (this w) roomName = Some channel"
  shows "joinRoom roomName w =
     (promises w,
      w\<lparr>promises := Suc (promises w),
        settled := (settled w)(promises w \<mapsto> Resolved (Channel channel))\<rparr>)"
  using assms
  by (simp add: joinRoom_def newPromise_def joinRoom_for_joined)

lemma joinRoom_inherited:
  assumes "phoenixSocket (this w) = Some socket" and "joinedChannels (this w) roomName = None"
    and "roomName \<in> set objectPrototypeNames"
  shows "joinRoom roomName w =
     (promises w,
      w\<lparr>promises := Suc (promises w),
        settled := (settled w)(promises w \<mapsto> Resolved (Inherited roomName))\<rparr>)"
  using assms
  by (simp add: joinRoom_def newPromise_def joinRoom_for_def openSocketConnection_def
      joinRoom_on_def settle_def getProperty_inherited)

text \<open>
  C3. With the socket open and the room not in the registry, \<open>joinRoom\<close> performs one
  join handshake. On the \<open>ok\<close> reply the channel is stored under the room name and the
  promise resolves with it. On an \<open>error\<close> reply the room is not stored, and the
  promise \<open>joinRoom\<close> returned is not rejected: it stays pending, since \<open>joinRoom\<close>
  builds it with \<open>resolve\<close> alone and puts no rejection handler on \<open>joinChannel\<close>. That
  is so for every room name that \<open>Object.prototype\<close> has no member of; for the name of
  such a member the read of the registry gives the inherited member, and \<open>joinRoom\<close>
  resolves with it at once and performs no handshake.
\<close>

theorem joinRoom_error_reply_leaves_promise_pending:
  assumes "phoenixSocket (this w) = Some socket"
    and "joinedChannels (this w) roomName = None"
    and "settled w (promises w) = None"
  shows "(roomName \<notin> set objectPrototypeNames \<longrightarrow>
     fst (joinRoom roomName w) = promises w \<and>
     trace (snd (joinRoom roomName w)) = trace w @
       [NewChannel (channels w) socket (js ''rooms:'' @ realm (this w) @ js '':'' @ roomName),
        Join (channels w) (pushes w)] \<and>
     settled (deliver (Reply (pushes w) (Err e)) (snd (joinRoom roomName w))) (promises w) = None \<and>
     joinedChannels (this (deliver (Reply (pushes w) (Err e)) (snd (joinRoom roomName w)))) =
       joinedChannels (this w) \<and>
     settled (deliver (Reply (pushes w) Ok) (snd (joinRoom roomName w))) (promises w) =
       Some (Resolved (Channel (channels w))) \<and>
     joinedChannels (this (deliver (Reply (pushes w) Ok) (snd (joinRoom roomName w)))) =
       (joinedChannels (this w))(roomName \<mapsto> channels w)) \<and>
   (roomName \<in> set objectPrototypeNames \<longrightarrow>
     joinRoom roomName w =
       (promises w,
        w\<lparr>promises := Suc (promises w),
          settled := (settled w)(promises w \<mapsto> Resolved (Inherited roomName))\<rparr>))"
proof (intro conjI impI)
  assume n: "roomName \<notin> set objectPrototypeNames"
  note j = joinRoom_not_joined [OF assms(1,2) n]
  show "fst (joinRoom roomName w) = promises w"
    unfolding j by simp
  show "trace (snd (joinRoom roomName w)) = trace w @
       [NewChannel (channels w) socket (js ''rooms:'' @ realm (this w) @ js '':'' @ roomName),
        Join (channels w) (pushes w)]"
    unfolding j by simp
  show "settled (deliver (Reply (pushes w) (Err e)) (snd (joinRoom roomName w))) (promises w) =
      None"
    unfolding j using assms(3) by simp
  show "joinedChannels (this (deliver (Reply (pushes w) (Err e)) (snd (joinRoom roomName w)))) =
       joinedChannels (this w)"
    unfolding j by simp
  show "settled (deliver (Reply (pushes w) Ok) (snd (joinRoom roomName w))) (promises w) =
       Some (Resolved (Channel (channels w)))"
    unfolding j by (simp add: settle_def)
  show "joinedChannels (this (deliver (Reply (pushes w) Ok) (snd (joinRoom roomName w)))) =
       (joinedChannels (this w))(roomName \<mapsto> channels w)"
    unfolding j by (simp add: settle_def)
next
  assume "roomName \<in> set objectPrototypeNames"
  then show "joinRoom roomName w =
       (promises w,
        w\<lparr>promises := Suc (promises w),
          settled := (settled w)(promises w \<mapsto> Resolved (Inherited roomName))\<rparr>)"
    by (rule joinRoom_inherited [OF assms(1,2)])
qed

theorem joinRoom_error_reply_leaves_promise_pending_witness:
  "fst (joinRoom (js ''room'')
          (run [CallJoinRoom (js ''other''), Deliver (SocketOpened 0)]
             (newWorld (newClient (js ''https://api/'') (js ''test'') (js ''t''))))) = 1 \<and>
   settled (deliver (Reply 1 (Err 7))
       (snd (joinRoom (js ''room'')
          (run [CallJoinRoom (js ''other''), Deliver (SocketOpened 0)]
             (newWorld (newClient (js ''https://api/'') (js ''test'') (js ''t''))))))) 1 = None \<and>
   joinedChannels (this (deliver (Reply 1 (Err 7))
       (snd (joinRoom (js ''room'')
          (run [CallJoinRoom (js ''other''), Deliver (SocketOpened 0)]
             (newWorld (newClient (js ''https://api/'') (js ''test'') (js ''t''))))))))
     (js ''room'') = None \<and>
   settled (deliver (Reply 1 Ok)
       (snd (joinRoom (js ''room'')
          (run [CallJoinRoom (js ''other''), Deliver (SocketOpened 0)]
             (newWorld (newClient (js ''https://api/'') (js ''test'') (js ''t''))))))) 1 =
     Some (Resolved (Channel 1)) \<and>
   settled (snd (joinRoom (js ''toString'')
          (run [CallJoinRoom (js ''other''), Deliver (SocketOpened 0)]
             (newWorld (newClient (js ''https://api/'') (js ''test'') (js ''t'')))))) 1 =
     Some (Resolved (Inherited (js ''toString''))) \<and>
   trace (snd (joinRoom (js ''toString'')
          (run [CallJoinRoom (js ''other''), Deliver (SocketOpened 0)]
             (newWorld (newClient (js ''https://api/'') (js ''test'') (js ''t'')))))) =
     trace (run [CallJoinRoom (js ''other''), Deliver (SocketOpened 0)]
             (newWorld (newClient (js ''https://api/'') (js ''test'') (js ''t''))))"
proof -
  define W where
    "W = run [CallJoinRoom (js ''other''), Deliver (SocketOpened 0)]
           (newWorld (newClient (js ''https://api/'') (js ''test'') (js ''t'')))"
  have w: "phoenixSocket (this W) = Some 0" "joinedChannels (this W) (js ''room'') = None"
    "settled W (promises W) = None" "promises W = 1" "pushes W = 1" "channels W = 1"
    "joinedChannels (this W) (js ''toString'') = None"
    unfolding W_def
    by (simp_all add: joinRoom_def newPromise_def joinRoom_for_def openSocketConnection_def
        joinRoom_on_def joinChannel_def perform_def settle_def newWorld_def newClient_def Let_def
        getProperty_def objectPrototypeNames_def js_def)
  have n: "js ''room'' \<notin> set objectPrototypeNames" "js ''toString'' \<in> set objectPrototypeNames"
    by (simp_all add: objectPrototypeNames_def js_def)
  note ordinary = joinRoom_error_reply_leaves_promise_pending
    [OF w(1,2,3), of 7, THEN conjunct1, rule_format, OF n(1), unfolded w(4,5,6)]
  note inherited = joinRoom_error_reply_leaves_promise_pending
    [OF w(1,7,3), THEN conjunct2, rule_format, OF n(2), unfolded w(4)]
  have "fst (joinRoom (js ''room'') W) = 1 \<and>
     settled (deliver (Reply 1 (Err 7)) (snd (joinRoom (js ''room'') W))) 1 = None \<and>
     joinedChannels (this (deliver (Reply 1 (Err 7)) (snd (joinRoom (js ''room'') W))))
       (js ''room'') = None \<and>
     settled (deliver (Reply 1 Ok) (snd (joinRoom (js ''room'') W))) 1 =
       Some (Resolved (Channel 1)) \<and>
     settled (snd (joinRoom (js ''toString'') W)) 1 =
       Some (Resolved (Inherited (js ''toString''))) \<and>
     trace (snd (joinRoom (js ''toString'') W)) = trace W"
    using ordinary w(2) unfolding inherited by simp
  then show ?thesis unfolding W_def .
qed

text \<open>
  C2, as stated, fails. Two calls of \<open>joinRoom\<close> for one room before the socket is open
  each find \<open>this.phoenixSocket\<close> empty and each make and connect a socket of their own;
  when the sockets open, each call finds no channel stored for the room and performs a
  join handshake of its own; the two promises resolve with two different channels.
\<close>

theorem concurrent_joins_not_shared:
  "settled (run [CallJoinRoom (js ''room''), CallJoinRoom (js ''room'')]
      (newWorld (newClient (js ''https://api/'') (js ''test'') (js ''t'')))) 0 = None \<and>
   settled (run [CallJoinRoom (js ''room''), CallJoinRoom (js ''room'')]
      (newWorld (newClient (js ''https://api/'') (js ''test'') (js ''t'')))) 1 = None \<and>
   settled (run [CallJoinRoom (js ''room''), CallJoinRoom (js ''room''),
                 Deliver (SocketOpened 0), Deliver (SocketOpened 1),
                 Deliver (Reply 0 Ok), Deliver (Reply 1 Ok)]
      (newWorld (newClient (js ''https://api/'') (js ''test'') (js ''t'')))) 0 =
     Some (Resolved (Channel 0)) \<and>
   settled (run [CallJoinRoom (js ''room''), CallJoinRoom (js ''room''),
                 Deliver (SocketOpened 0), Deliver (SocketOpened 1),
                 Deliver (Reply 0 Ok), Deliver (Reply 1 Ok)]
      (newWorld (newClient (js ''https://api/'') (js ''test'') (js ''t'')))) 1 =
     Some (Resolved (Channel 1)) \<and>
   filter isJoin (trace (run [CallJoinRoom (js ''room''), CallJoinRoom (js ''room''),
                 Deliver (SocketOpened 0), Deliver (SocketOpened 1),
                 Deliver (Reply 0 Ok), Deliver (Reply 1 Ok)]
      (newWorld (newClient (js ''https://api/'') (js ''test'') (js ''t''))))) =
     [Join 0 0, Join 1 1] \<and>
   filter isConnect (trace (run [CallJoinRoom (js ''room''), CallJoinRoom (js ''room''),
                 Deliver (SocketOpened 0), Deliver (SocketOpened 1),
                 Deliver (Reply 0 Ok), Deliver (Reply 1 Ok)]
      (newWorld (newClient (js ''https://api/'') (js ''test'') (js ''t''))))) =
     [Connect 0, Connect 1]"
  by (simp add: joinRoom_def newPromise_def joinRoom_for_def openSocketConnection_def
      joinRoom_on_def joinChannel_def perform_def settle_def newWorld_def newClient_def Let_def
      getProperty_def objectPrototypeNames_def js_def)

text \<open>
  C2, amended. For every room name that \<open>Object.prototype\<close> has no member of: a call of
  \<open>joinRoom\<close> made after an earlier call for the room has resolved (the socket has
  opened and the join was replied \<open>ok\<close>) resolves with the same channel, and the whole
  run makes one socket and one join handshake; and in any world where the socket is
  stored and the room is in the registry, \<open>joinRoom\<close> resolves with the stored channel
  and does nothing else. For every room name, whenever the socket is stored, \<open>joinRoom\<close>
  makes no socket.
\<close>

theorem sequential_joins_share_channel:
  "(phoenixSocket (this w) = None \<and> joinedChannels (this w) roomName = None \<and>
    roomName \<notin> set objectPrototypeNames \<longrightarrow>
      settled (run [CallJoinRoom roomName, Deliver (SocketOpened (sockets w)),
                    Deliver (Reply (pushes w) Ok), CallJoinRoom roomName] w) (promises w) =
        Some (Resolved (Channel (channels w))) \<and>
      settled (run [CallJoinRoom roomName, Deliver (SocketOpened (sockets w)),
                    Deliver (Reply (pushes w) Ok), CallJoinRoom roomName] w) (Suc (promises w)) =
        Some (Resolved (Channel (channels w))) \<and>
      trace (run [CallJoinRoom roomName, Deliver (SocketOpened (sockets w)),
                  Deliver (Reply (pushes w) Ok), CallJoinRoom roomName] w) =
        trace w @
          [NewSocket (sockets w)
             (WebSocket (apiConfig_phoenixSocket (this w) (this_config (this w))))
             (realm (this w)) (token (this w)),
           Connect (sockets w),
           NewChannel (channels w) (sockets w)
             (js ''rooms:'' @ realm (this w) @ js '':'' @ roomName),
           Join (channels w) (pushes w)]) \<and>
   (phoenixSocket (this w) = Some socket \<and> joinedChannels (this w) roomName = Some channel \<and>
    roomName \<notin> set objectPrototypeNames \<longrightarrow>
      joinRoom roomName w =
        (promises w,
         w\<lparr>promises := Suc (promises w),
           settled := (settled w)(promises w \<mapsto> Resolved (Channel channel))\<rparr>)) \<and>
   (phoenixSocket (this w) = Some socket \<longrightarrow>
      sockets (snd (joinRoom roomName w)) = sockets w \<and>
      filter isConnect (trace (snd (joinRoom roomName w))) = filter isConnect (trace w))"
proof (intro conjI impI)
  assume a: "phoenixSocket (this w) = None \<and> joinedChannels (this w) roomName = None \<and>
    roomName \<notin> set objectPrototypeNames"
  then have n: "phoenixSocket (this w) = None" and j: "joinedChannels (this w) roomName = None"
    and p: "roomName \<notin> set objectPrototypeNames"
    by simp_all
  let ?r = "run [CallJoinRoom roomName, Deliver (SocketOpened (sockets w)),
                    Deliver (Reply (pushes w) Ok), CallJoinRoom roomName] w"
  have r: "?r =
      w\<lparr>this := (this w)\<lparr>phoenixSocket := Some (sockets w),
                          joinedChannels := (joinedChannels (this w))(roomName \<mapsto> channels w)\<rparr>,
        sockets := Suc (sockets w),
        channels := Suc (channels w),
        pushes := Suc (pushes w),
        promises := Suc (Suc (promises w)),
        connecting := (connecting w)(sockets w := None),
        awaiting := (awaiting w)(pushes w := None),
        settled := (settled w)(promises w \<mapsto> Resolved (Channel (channels w)),
                      Suc (promises w) \<mapsto> Resolved (Channel (channels w))),
        trace := trace w @
          [NewSocket (sockets w)
             (WebSocket (apiConfig_phoenixSocket (this w) (this_config (this w))))
             (realm (this w)) (token (this w)),
           Connect (sockets w),
           NewChannel (channels w) (sockets w)
             (js ''rooms:'' @ realm (this w) @ js '':'' @ roomName),
           Join (channels w) (pushes w)]\<rparr>"
    using j p
    by (simp add: joinRoom_without_socket [OF n] joinRoom_for_not_joined settle_def
        joinRoom_joined apiConfig_phoenixSocket_def this_config_def)
  show "settled ?r (promises w) = Some (Resolved (Channel (channels w)))"
    unfolding r by simp
  show "settled ?r (Suc (promises w)) = Some (Resolved (Channel (channels w)))"
    unfolding r by simp
  show "trace ?r = trace w @
          [NewSocket (sockets w)
             (WebSocket (apiConfig_phoenixSocket (this w) (this_config (this w))))
             (realm (this w)) (token (this w)),
           Connect (sockets w),
           NewChannel (channels w) (sockets w)
             (js ''rooms:'' @ realm (this w) @ js '':'' @ roomName),
           Join (channels w) (pushes w)]"
    unfolding r by simp
next
  assume "phoenixSocket (this w) = Some socket \<and> joinedChannels (this w) roomName = Some channel \<and>
    roomName \<notin> set objectPrototypeNames"
  then show "joinRoom roomName w =
        (promises w,
         w\<lparr>promises := Suc (promises w),
           settled := (settled w)(promises w \<mapsto> Resolved (Channel channel))\<rparr>)"
    by (simp add: joinRoom_joined)
next
  assume s: "phoenixSocket (this w) = Some socket"
  show "sockets (snd (joinRoom roomName w)) = sockets w"
  proof (cases "joinedChannels (this w) roomName")
    case None
    with s show ?thesis
      by (cases "roomName \<in> set objectPrototypeNames")
        (simp_all add: joinRoom_not_joined joinRoom_inherited)
  next
    case (Some channel)
    with s show ?thesis by (simp add: joinRoom_joined)
  qed
  show "filter isConnect (trace (snd (joinRoom roomName w))) = filter isConnect (trace w)"
  proof (cases "joinedChannels (this w) roomName")
    case None
    with s show ?thesis
      by (cases "roomName \<in> set objectPrototypeNames")
        (simp_all add: joinRoom_not_joined joinRoom_inherited)
  next
    case (Some channel)
    with s show ?thesis by (simp add: joinRoom_joined)
  qed
qed

theorem sequential_joins_share_channel_witness:
  "settled (run [CallJoinRoom (js ''room''), Deliver (SocketOpened 0), Deliver (Reply 0 Ok),
                 CallJoinRoom (js ''room'')]
      (newWorld (newClient (js ''https://api/'') (js ''test'') (js ''t'')))) 0 =
     Some (Resolved (Channel 0)) \<and>
   settled (run [CallJoinRoom (js ''room''), Deliver (SocketOpened 0), Deliver (Reply 0 Ok),
                 CallJoinRoom (js ''room'')]
      (newWorld (newClient (js ''https://api/'') (js ''test'') (js ''t'')))) 1 =
     Some (Resolved (Channel 0)) \<and>
   filter isJoin (trace (run [CallJoinRoom (js ''room''), Deliver (SocketOpened 0),
                 Deliver (Reply 0 Ok), CallJoinRoom (js ''room'')]
      (newWorld (newClient (js ''https://api/'') (js ''test'') (js ''t''))))) = [Join 0 0] \<and>
   filter isConnect (trace (run [CallJoinRoom (js ''room''), Deliver (SocketOpened 0),
                 Deliver (Reply 0 Ok), CallJoinRoom (js ''room'')]
      (newWorld (newClient (js ''https://api/'') (js ''test'') (js ''t''))))) = [Connect 0] \<and>
   settled (snd (joinRoom (js ''room'')
      (run [CallJoinRoom (js ''room''), Deliver (SocketOpened 0), Deliver (Reply 0 Ok)]
         (newWorld (newClient (js ''https://api/'') (js ''test'') (js ''t'')))))) 1 =
     Some (Resolved (Channel 0)) \<and>
   sockets (snd (joinRoom (js ''room'')
      (run [CallJoinRoom (js ''room''), Deliver (SocketOpened 0), Deliver (Reply 0 Ok)]
         (newWorld (newClient (js ''https://api/'') (js ''test'') (js ''t'')))))) = 1"
proof -
  define w0 where "w0 = newWorld (newClient (js ''https://api/'') (js ''test'') (js ''t''))"
  define W where
    "W = run [CallJoinRoom (js ''room''), Deliver (SocketOpened 0), Deliver (Reply 0 Ok)] w0"
  have n: "js ''room'' \<notin> set objectPrototypeNames"
    by (simp add: objectPrototypeNames_def js_def)
  have w0: "phoenixSocket (this w0) = None \<and> joinedChannels (this w0) (js ''room'') = None \<and>
      js ''room'' \<notin> set objectPrototypeNames"
    "sockets w0 = 0" "pushes w0 = 0" "promises w0 = 0" "channels w0 = 0" "trace w0 = []"
    unfolding w0_def using n by (simp_all add: newWorld_def newClient_def)
  have W: "phoenixSocket (this W) = Some 0 \<and> joinedChannels (this W) (js ''room'') = Some 0 \<and>
      js ''room'' \<notin> set objectPrototypeNames"
    "promises W = 1" "sockets W = 1"
    unfolding W_def w0_def using n
    by (simp_all add: joinRoom_def newPromise_def joinRoom_for_def openSocketConnection_def
        joinRoom_on_def joinChannel_def perform_def settle_def newWorld_def newClient_def Let_def
        getProperty_def)
  note first = sequential_joins_share_channel
    [where w = w0 and roomName = "js ''room''", THEN conjunct1, rule_format, OF w0(1),
      unfolded w0(2-6)]
  note second = sequential_joins_share_channel
    [where w = W and roomName = "js ''room''" and socket = 0 and channel = 0,
      THEN conjunct2, THEN conjunct1, rule_format, OF W(1), unfolded W(2)]
  note third = sequential_joins_share_channel
    [where w = W and roomName = "js ''room''" and socket = 0,
      THEN conjunct2, THEN conjunct2, rule_format, OF conjunct1 [OF W(1)], unfolded W(3)]
  have "settled (run [CallJoinRoom (js ''room''), Deliver (SocketOpened 0), Deliver (Reply 0 Ok),
                 CallJoinRoom (js ''room'')] w0) 0 = Some (Resolved (Channel 0)) \<and>
   settled (run [CallJoinRoom (js ''room''), Deliver (SocketOpened 0), Deliver (Reply 0 Ok),
                 CallJoinRoom (js ''room'')] w0) 1 = Some (Resolved (Channel 0)) \<and>
   filter isJoin (trace (run [CallJoinRoom (js ''room''), Deliver (SocketOpened 0),
                 Deliver (Reply 0 Ok), CallJoinRoom (js ''room'')] w0)) = [Join 0 0] \<and>
   filter isConnect (trace (run [CallJoinRoom (js ''room''), Deliver (SocketOpened 0),
                 Deliver (Reply 0 Ok), CallJoinRoom (js ''room'')] w0)) = [Connect 0] \<and>
   settled (snd (joinRoom (js ''room'') W)) 1 = Some (Resolved (Channel 0)) \<and>
   sockets (snd (joinRoom (js ''room'') W)) = 1"
    using first third by (simp add: second)
  then show ?thesis unfolding W_def w0_def .
qed

end
